theory Spec2Isabelle
  imports Main "HOL-Library.AList"
begin

section \<open>Python values, errors and string operations\<close>

text \<open>
  The forge add-on of portablemc (\<^verbatim>\<open>src/forge/portablemc_forge/__init__.py\<close>) is
  embedded function by function. Exceptions are values: a function that can raise returns
  \<open>error + 'a\<close>, with \<open>Inl\<close> the exception. \<open>ForgeError code version\<close> is the module's own
  exception class; \<open>KeyError\<close> and \<open>IndexError\<close> are Python's; \<open>TypeError\<close> stands for
  Python's TypeError and AttributeError alike when a value has not the shape the code
  indexes or calls; \<open>AttributeError name\<close> is raised when the object itself has no
  attribute \<open>name\<close>; \<open>External\<close> is whatever a function of the launcher core or of the
  standard library raises (the core is not part of this module).
\<close>

datatype error =
    ForgeError string string
  | KeyError string
  | IndexError
  | TypeError
  | AttributeError string
  | External string

definition NOT_INSTALLED :: string where
  "NOT_INSTALLED = ''not_installed''"

definition MINECRAFT_VERSION_NOT_FOUND :: string where
  "MINECRAFT_VERSION_NOT_FOUND = ''minecraft_version_not_found''"

definition MINECRAFT_VERSION_NOT_SUPPORTED :: string where
  "MINECRAFT_VERSION_NOT_SUPPORTED = ''minecraft_version_not_supported''"

definition INSTALLER_NOT_FOUND :: string where
  "INSTALLER_NOT_FOUND = ''installer_not_found''"

definition INSTALL_PROFILE_NOT_FOUND :: string where
  "INSTALL_PROFILE_NOT_FOUND = ''install_profile_not_found''"

definition VERSION_META_NOT_FOUND :: string where
  "VERSION_META_NOT_FOUND = ''version_meta_not_found''"

definition REQUIRES_JVM :: string where
  "REQUIRES_JVM = ''requires_jvm''"

text \<open>Sequencing of fallible steps: the first exception ends the computation.\<close>

definition bnd :: "error + 'a \<Rightarrow> ('a \<Rightarrow> error + 'b) \<Rightarrow> error + 'b" where
  "bnd m f = (case m of Inl e \<Rightarrow> Inl e | Inr v \<Rightarrow> f v)"

text \<open>A call into the launcher core or the standard library: its exception is \<open>External\<close>.\<close>

definition ext :: "string + 'a \<Rightarrow> error + 'a" where
  "ext m = (case m of Inl msg \<Rightarrow> Inl (External msg) | Inr v \<Rightarrow> Inr v)"

text \<open>\<^verbatim>\<open>s.startswith(p)\<close> and \<^verbatim>\<open>s.endswith(p)\<close>.\<close>

definition startswith :: "string \<Rightarrow> string \<Rightarrow> bool" where
  "startswith s p = (take (length p) s = p)"

definition endswith :: "string \<Rightarrow> string \<Rightarrow> bool" where
  "endswith s p = (length p \<le> length s \<and> drop (length s - length p) s = p)"

section \<open>The version resolver: \<^verbatim>\<open>new_version\<close>\<close>

text \<open>
  The collaborators of the resolver are parameters: \<open>filter_latest\<close> is
  \<^verbatim>\<open>pmc.new_version_manifest(ctx).filter_latest\<close> (it returns the game version and whether the
  request was an alias), \<open>json_simple_request\<close> is the core's JSON-over-HTTP request, typed
  as \<^verbatim>\<open>request_promo_versions\<close> annotates its result (\<^verbatim>\<open>Dict[str, str]\<close> under the key
  \<^verbatim>\<open>"promos"\<close>; a key bound to \<^verbatim>\<open>null\<close> reads as an absent key, as \<^verbatim>\<open>.get\<close> returns
  \<^verbatim>\<open>None\<close> for both).
\<close>

type_synonym promos = "string \<rightharpoonup> string"

record resolver_env =
  filter_latest :: "string \<Rightarrow> string + string \<times> bool"
  json_simple_request :: "string \<Rightarrow> string + (string \<rightharpoonup> promos)"

definition PROMO_URL :: string where
  "PROMO_URL = ''https://files.minecraftforge.net/net/minecraftforge/forge/promotions_slim.json''"

definition request_promo_versions :: "resolver_env \<Rightarrow> error + promos" where
  "request_promo_versions env =
     bnd (ext (json_simple_request env PROMO_URL)) (\<lambda>raw.
       case raw ''promos'' of
         None \<Rightarrow> Inl (KeyError ''promos'')
       | Some promo_versions \<Rightarrow> Inr promo_versions)"

text \<open>
  What \<^verbatim>\<open>new_version\<close> returns: the result of the mixin's \<^verbatim>\<open>old(ctx, version_id)\<close> for an
  identifier without the \<^verbatim>\<open>forge:\<close> prefix, or the object
  \<^verbatim>\<open>ForgeVersion(ctx, forge_version, prefix=ctx.ns.forge_prefix)\<close>, given by its two arguments.
\<close>

datatype resolved =
    Delegated string
  | Forge string string

text \<open>
  The loop over the three suffixes, lines 60 to 68. The key looked up is built from the
  game version as it was before the loop; on the first hit the game version loses its
  \<^verbatim>\<open>-recommended\<close> (12 characters) or else its \<^verbatim>\<open>-latest\<close> (7 characters) ending and the
  loop is left. \<open>None\<close> is \<^verbatim>\<open>forge_version\<close> still being \<^verbatim>\<open>None\<close> after the loop.
\<close>

fun promo_loop :: "promos \<Rightarrow> string \<Rightarrow> string list \<Rightarrow> string option" where
  "promo_loop promo_versions game_version [] = None"
| "promo_loop promo_versions game_version (suffix # rest) =
     (case promo_versions (game_version @ suffix) of
        Some tmp_forge_version \<Rightarrow>
          Some ((if endswith game_version ''-recommended''
                 then take (length game_version - 12) game_version
                 else if endswith game_version ''-latest''
                 then take (length game_version - 7) game_version
                 else game_version) @ ''-'' @ tmp_forge_version)
      | None \<Rightarrow> promo_loop promo_versions game_version rest)"

definition lookup_required :: "bool \<Rightarrow> string \<Rightarrow> bool" where
  "lookup_required game_version_alias game_version =
     (game_version_alias \<or> endswith game_version ''-recommended''
        \<or> endswith game_version ''-latest'' \<or> CHR ''-'' \<notin> set game_version)"

definition new_version :: "resolver_env \<Rightarrow> string \<Rightarrow> string \<Rightarrow> error + resolved" where
  "new_version env forge_prefix version_id =
     (if startswith version_id ''forge:'' then
        let game_version = drop 6 version_id;
            game_version = (if length game_version = 0 then ''release'' else game_version)
        in bnd (ext (filter_latest env game_version)) (\<lambda>(game_version, game_version_alias).
             bnd (if lookup_required game_version_alias game_version
                  then bnd (request_promo_versions env) (\<lambda>promo_versions.
                         Inr (promo_loop promo_versions game_version
                                ['''', ''-recommended'', ''-latest'']))
                  else Inr None) (\<lambda>forge_version.
               case forge_version of
                 None \<Rightarrow>
                   if game_version_alias
                   then Inl (ForgeError MINECRAFT_VERSION_NOT_SUPPORTED game_version)
                   else Inr (Forge game_version forge_prefix)
               | Some forge_version \<Rightarrow> Inr (Forge forge_version forge_prefix)))
      else Inr (Delegated version_id))"

section \<open>JSON documents as Python reads them\<close>

text \<open>
  What \<^verbatim>\<open>json.load\<close> returns: \<^verbatim>\<open>None\<close>, a bool, an int, a str, a list or a dict. A dict
  is an association list in insertion order, read with \<open>map_of\<close>; its keys are distinct, as
  those of a Python dict are. Floating-point numbers are left out: no branch of the module
  reads one.
\<close>

datatype json =
    JNull
  | JBool bool
  | JInt int
  | JStr string
  | JArr "json list"
  | JObj "(string \<times> json) list"

text \<open>\<^verbatim>\<open>p in s\<close> on two strings: \<open>p\<close> occurs in \<open>s\<close>.\<close>

fun is_substring :: "string \<Rightarrow> string \<Rightarrow> bool" where
  "is_substring p [] = (p = [])"
| "is_substring p (c # s) = (startswith (c # s) p \<or> is_substring p s)"

text \<open>\<^verbatim>\<open>j[k]\<close> with a string key: only a dict takes one.\<close>

fun py_getitem :: "json \<Rightarrow> string \<Rightarrow> error + json" where
  "py_getitem (JObj kvs) k = (case map_of kvs k of None \<Rightarrow> Inl (KeyError k) | Some v \<Rightarrow> Inr v)"
| "py_getitem _ k = Inl TypeError"

text \<open>\<^verbatim>\<open>j.get(k)\<close>: \<^verbatim>\<open>None\<close> for an absent key; only a dict has the method.\<close>

fun py_get :: "json \<Rightarrow> string \<Rightarrow> error + json" where
  "py_get (JObj kvs) k = Inr (case map_of kvs k of None \<Rightarrow> JNull | Some v \<Rightarrow> v)"
| "py_get _ k = Inl TypeError"

text \<open>\<^verbatim>\<open>k in j\<close> for a string \<open>k\<close>: a key of a dict, an element of a list, a part of a str.\<close>

fun py_contains :: "string \<Rightarrow> json \<Rightarrow> error + bool" where
  "py_contains k (JObj kvs) = Inr (k \<in> set (map fst kvs))"
| "py_contains k (JArr xs) = Inr (JStr k \<in> set xs)"
| "py_contains k (JStr s) = Inr (is_substring k s)"
| "py_contains k _ = Inl TypeError"

text \<open>\<^verbatim>\<open>for x in j\<close>: the elements of a list, the keys of a dict, the characters of a str.\<close>

fun py_iter :: "json \<Rightarrow> error + json list" where
  "py_iter (JArr xs) = Inr xs"
| "py_iter (JObj kvs) = Inr (map (\<lambda>kv. JStr (fst kv)) kvs)"
| "py_iter (JStr s) = Inr (map (\<lambda>c. JStr [c]) s)"
| "py_iter _ = Inl TypeError"

fun py_len :: "json \<Rightarrow> error + nat" where
  "py_len (JArr xs) = Inr (length xs)"
| "py_len (JObj kvs) = Inr (length kvs)"
| "py_len (JStr s) = Inr (length s)"
| "py_len _ = Inl TypeError"

text \<open>The truth value of a value in a condition.\<close>

fun py_truthy :: "json \<Rightarrow> bool" where
  "py_truthy JNull = False"
| "py_truthy (JBool b) = b"
| "py_truthy (JInt i) = (i \<noteq> 0)"
| "py_truthy (JStr s) = (s \<noteq> [])"
| "py_truthy (JArr xs) = (xs \<noteq> [])"
| "py_truthy (JObj kvs) = (kvs \<noteq> [])"

text \<open>\<^verbatim>\<open>j[k] = v\<close>: a key already there keeps its place, a new one goes last.\<close>

fun py_setitem :: "json \<Rightarrow> string \<Rightarrow> json \<Rightarrow> error + json" where
  "py_setitem (JObj kvs) k v = Inr (JObj (AList.update k v kvs))"
| "py_setitem _ k v = Inl TypeError"

text \<open>\<^verbatim>\<open>del j[k]\<close>.\<close>

fun py_delitem :: "json \<Rightarrow> string \<Rightarrow> error + json" where
  "py_delitem (JObj kvs) k =
     (if k \<in> set (map fst kvs) then Inr (JObj (AList.delete k kvs)) else Inl (KeyError k))"
| "py_delitem _ k = Inl TypeError"

text \<open>\<^verbatim>\<open>j.items()\<close>: only a dict has the method.\<close>

fun py_items :: "json \<Rightarrow> error + (string \<times> json) list" where
  "py_items (JObj kvs) = Inr kvs"
| "py_items _ = Inl TypeError"

text \<open>A value where the code calls a method of \<^verbatim>\<open>str\<close> or passes it as one.\<close>

fun py_str :: "json \<Rightarrow> error + string" where
  "py_str (JStr s) = Inr s"
| "py_str _ = Inl TypeError"

section \<open>The \<^verbatim>\<open>ForgeVersion\<close> object and its collaborators\<close>

text \<open>
  Modelled from the spec: the launcher core's \<^verbatim>\<open>DownloadEntry\<close> (its class is not part of
  this module), the download descriptor of the spec's data model with the destination it
  is built for: an URL, a destination path and an optional expected size.
\<close>

record download_entry =
  entry_url :: json
  entry_dst :: string
  entry_size :: "int option"

text \<open>
  A processor of the install profile, as \<^verbatim>\<open>prepare_post\<close> reads it: \<^verbatim>\<open>processor["jar"]\<close>,
  \<^verbatim>\<open>processor.get("classpath", [])\<close> and \<^verbatim>\<open>processor.get("args", [])\<close>; \<open>None\<close> is an absent
  key. The argument templates are strings (\<^verbatim>\<open>replace_install_vars(txt: str)\<close>).
\<close>

record processor =
  jar :: "string option"
  classpath :: "string list option"
  args :: "string list option"

type_synonym archive = "string \<rightharpoonup> string"
type_synonym files = "string \<rightharpoonup> string"

text \<open>
  The object and the world it acts on. \<open>self_id\<close> is \<^verbatim>\<open>self.id\<close>, \<open>libraries_dir\<close> is
  \<^verbatim>\<open>self.context.libraries_dir\<close>, \<open>dl\<close> is the pending download list \<^verbatim>\<open>self.dl\<close> and
  \<open>version_meta\<close> is \<^verbatim>\<open>self.version_meta\<close> (\<open>JNull\<close> for \<^verbatim>\<open>None\<close>). \<open>fs\<close> is the file
  system, a map from the path of a regular file to its content; directories are not
  modelled (\<^verbatim>\<open>os.makedirs\<close> always succeeds).

  The constructor and the parser assign \<open>forge_install_libraries\<close>,
  \<open>forge_install_processors\<close>, \<open>forge_install_data\<close> and
  \<open>forge_install_version_libraries\<close>, and \<^verbatim>\<open>prepare_libraries\<close> reads the first of them.
  \<^verbatim>\<open>prepare_post\<close> reads other attributes: \<open>install_lib_paths\<close>, \<open>install_processors\<close> and
  \<open>install_data\<close>. Nothing in this module assigns these three, so each of them is an
  attribute that the object may not have: \<open>Absent\<close> when it was never assigned, and then
  reading it raises \<^verbatim>\<open>AttributeError\<close>; \<open>Present v\<close> when it holds \<open>v\<close>. They are typed
  as \<^verbatim>\<open>prepare_post\<close> uses them.
\<close>

datatype 'a attr =
    Absent
  | Present 'a

record forge_obj =
  self_id :: string
  forge_version :: string
  libraries_dir :: string
  forge_install_libraries :: "(string \<times> string) list option"
  forge_install_processors :: "json option"
  forge_install_data :: "(string \<times> json) list option"
  forge_install_version_libraries :: "json option"
  install_lib_paths :: "(string \<times> string) list option attr"
  install_processors :: "processor list attr"
  install_data :: "(string \<times> json) list option attr"
  jvm_exec :: "string option"
  version_meta :: json
  dl :: "download_entry list"
  fs :: files

text \<open>
  The functions of the launcher core and of the standard library that the class calls.
  \<open>http_request url\<close> is the GET request (status and body), \<open>ZipFile\<close> opens the body as
  an archive, \<open>json_load\<close> is \<^verbatim>\<open>json.load\<close>, \<open>file_path s\<close> is
  \<^verbatim>\<open>LibrarySpecifier.from_str(s).file_path()\<close> (what can raise in it is \<^verbatim>\<open>from_str\<close>, on a
  malformed specifier, and it is raised where \<^verbatim>\<open>from_str\<close> is called), \<open>path_join\<close> is
  \<^verbatim>\<open>os.path.join\<close>, \<open>pathsep\<close> is \<^verbatim>\<open>os.path.pathsep\<close>, \<open>from_meta\<close> is
  \<^verbatim>\<open>DownloadEntry.from_meta\<close>, \<open>subprocess_run\<close> is
  \<^verbatim>\<open>subprocess.run\<close> (what the process does to the files; its exit status is only
  printed), and the \<open>super_\<close> functions are the methods of the base class \<^verbatim>\<open>Version\<close>.
\<close>

record core =
  http_request :: "string \<Rightarrow> string + nat \<times> string"
  ZipFile :: "string \<Rightarrow> string + archive"
  json_load :: "string \<Rightarrow> string + json"
  file_path :: "string \<Rightarrow> string + string"
  path_join :: "string \<Rightarrow> string \<Rightarrow> string"
  pathsep :: string
  from_meta :: "json \<Rightarrow> string \<Rightarrow> string + download_entry"
  replace_vars :: "string \<Rightarrow> (string \<times> json) list option \<Rightarrow> string + string"
  subprocess_run :: "string list \<Rightarrow> files \<Rightarrow> string + files"
  super_fetch_version_meta :: "string \<Rightarrow> string \<Rightarrow> string \<Rightarrow> forge_obj \<Rightarrow> string + json \<times> forge_obj"
  super_prepare_libraries :: "forge_obj \<Rightarrow> string + forge_obj"
  super_prepare_post :: "forge_obj \<Rightarrow> string + forge_obj"

text \<open>
  \<^verbatim>\<open>ForgeVersion.__init__\<close>, on the object as the base constructor leaves it: the base
  constructor is given the identifier \<^verbatim>\<open>f"{prefix}-{forge_version}"\<close>.
\<close>

definition ForgeVersion_init :: "forge_obj \<Rightarrow> string \<Rightarrow> string \<Rightarrow> forge_obj" where
  "ForgeVersion_init base fv prefix =
     base\<lparr> self_id := prefix @ ''-'' @ fv,
           forge_version := fv,
           forge_install_libraries := None,
           forge_install_processors := None,
           forge_install_data := None,
           forge_install_version_libraries := None \<rparr>"

section \<open>The metadata fetcher and the archive reader\<close>

definition install_jar_url :: "string \<Rightarrow> string" where
  "install_jar_url version =
     ''https://maven.minecraftforge.net/net/minecraftforge/forge/'' @ version
       @ ''/forge-'' @ version @ ''-installer.jar''"

text \<open>\<^verbatim>\<open>request_install_jar\<close>: the archive when the status is 200, \<^verbatim>\<open>None\<close> otherwise.\<close>

definition request_install_jar :: "core \<Rightarrow> string \<Rightarrow> error + archive option" where
  "request_install_jar env version =
     bnd (ext (http_request env (install_jar_url version))) (\<lambda>(status, raw).
       if status = 200 then bnd (ext (ZipFile env raw)) (\<lambda>zf. Inr (Some zf)) else Inr None)"

text \<open>
  \<^verbatim>\<open>zip_extract_file\<close>: the entry is opened first (\<^verbatim>\<open>KeyError\<close> when the archive has no
  such entry; a name that is a list or a dict cannot be hashed), then its content is
  written to the destination.
\<close>

fun zip_open :: "archive \<Rightarrow> json \<Rightarrow> error + string" where
  "zip_open zf (JStr name) = (case zf name of None \<Rightarrow> Inl (KeyError name) | Some src \<Rightarrow> Inr src)"
| "zip_open zf (JArr xs) = Inl TypeError"
| "zip_open zf (JObj kvs) = Inl TypeError"
| "zip_open zf _ = Inl (KeyError [])"

definition zip_extract_file :: "archive \<Rightarrow> json \<Rightarrow> string \<Rightarrow> files \<Rightarrow> error + files" where
  "zip_extract_file zf entry_path dst_path files =
     bnd (zip_open zf entry_path) (\<lambda>src. Inr (files(dst_path \<mapsto> src)))"

section \<open>\<^verbatim>\<open>ForgeVersion._fetch_version_meta\<close>\<close>

text \<open>The table of lines 131 to 142: the odd suffixes of some older game versions.\<close>

definition legacy_suffixes :: "string \<Rightarrow> string list" where
  "legacy_suffixes game_version =
     (case map_of
        [(''1.11'', [''-1.11.x'']),
         (''1.10.2'', [''-1.10.0'']),
         (''1.10'', [''-1.10.0'']),
         (''1.9.4'', [''-1.9.4'']),
         (''1.9'', [''-1.9.0'', ''-1.9'']),
         (''1.8.9'', [''-1.8.9'']),
         (''1.8.8'', [''-1.8.8'']),
         (''1.8'', [''-1.8'']),
         (''1.7.10'', [''-1.7.10'', ''-1710ls'', ''-new'']),
         (''1.7.2'', [''-mc172''])] game_version of
        None \<Rightarrow> []
      | Some l \<Rightarrow> l)"

text \<open>\<^verbatim>\<open>self.forge_version.split("-", 1)[0]\<close> and the list of suffixes tried.\<close>

definition game_version_of :: "string \<Rightarrow> string" where
  "game_version_of fv = takeWhile (\<lambda>c. c \<noteq> CHR ''-'') fv"

definition suffixes_of :: "string \<Rightarrow> string list" where
  "suffixes_of fv = [''''] @ legacy_suffixes (game_version_of fv)"

text \<open>The loop of lines 145 to 148: the first install JAR that works.\<close>

fun find_install_jar :: "core \<Rightarrow> string \<Rightarrow> string list \<Rightarrow> error + archive option" where
  "find_install_jar env fv [] = Inr None"
| "find_install_jar env fv (suffix # rest) =
     (case request_install_jar env (fv @ suffix) of
        Inl e \<Rightarrow> Inl e
      | Inr (Some install_jar) \<Rightarrow> Inr (Some install_jar)
      | Inr None \<Rightarrow> find_install_jar env fv rest)"

text \<open>
  Lines 168 to 173: the install profile; only the \<^verbatim>\<open>KeyError\<close> of a missing entry is
  caught and turned into the module's error.
\<close>

definition read_install_profile :: "core \<Rightarrow> string \<Rightarrow> archive \<Rightarrow> error + json" where
  "read_install_profile env fv install_jar =
     (case install_jar ''install_profile.json'' of
        None \<Rightarrow> Inl (ForgeError INSTALL_PROFILE_NOT_FOUND fv)
      | Some fp \<Rightarrow> ext (json_load env fp))"

text \<open>
  One turn of the loop of lines 189 to 204 over the libraries of the install profile. The
  name is given to \<^verbatim>\<open>LibrarySpecifier.from_str\<close>, which takes a str.
\<close>

definition needs_download :: "files \<Rightarrow> string \<Rightarrow> download_entry \<Rightarrow> bool" where
  "needs_download files lib_path lib_dl_entry =
     (files lib_path = None
      \<or> (entry_size lib_dl_entry \<noteq> None
          \<and> int (length (the (files lib_path))) \<noteq> the (entry_size lib_dl_entry)))"

definition install_lib_step :: "core \<Rightarrow> archive \<Rightarrow> json \<Rightarrow> forge_obj \<Rightarrow> error + forge_obj" where
  "install_lib_step env install_jar install_lib self =
     bnd (py_getitem install_lib ''name'') (\<lambda>lib_name_json.
     bnd (py_str lib_name_json) (\<lambda>lib_name.
     bnd (ext (file_path env lib_name)) (\<lambda>lib_spec_file_path.
     bnd (py_getitem install_lib ''downloads'') (\<lambda>downloads.
     bnd (py_getitem downloads ''artifact'') (\<lambda>lib_artifact.
       let lib_path = path_join env (libraries_dir self) lib_spec_file_path in
     bnd (case forge_install_libraries self of
            None \<Rightarrow> Inl TypeError
          | Some libs \<Rightarrow>
              Inr (self\<lparr> forge_install_libraries := Some (AList.update lib_name lib_path libs) \<rparr>)) (\<lambda>self.
     bnd (py_getitem lib_artifact ''url'') (\<lambda>url.
     bnd (py_len url) (\<lambda>n.
       if n \<noteq> 0 then
         bnd (ext (from_meta env lib_artifact lib_path)) (\<lambda>lib_dl_entry.
           if needs_download (fs self) lib_path lib_dl_entry
           then Inr (self\<lparr> dl := dl self @ [lib_dl_entry] \<rparr>)
           else Inr self)
       else
         bnd (zip_extract_file install_jar (JStr (''maven/'' @ lib_spec_file_path)) lib_path (fs self))
           (\<lambda>files. Inr (self\<lparr> fs := files \<rparr>))))))))))"

fun install_libs :: "core \<Rightarrow> archive \<Rightarrow> json list \<Rightarrow> forge_obj \<Rightarrow> error + forge_obj" where
  "install_libs env install_jar [] self = Inr self"
| "install_libs env install_jar (install_lib # rest) self =
     (case install_lib_step env install_jar install_lib self of
        Inl e \<Rightarrow> Inl e
      | Inr self \<Rightarrow> install_libs env install_jar rest self)"

text \<open>The loop of lines 207 and 208: only the \<^verbatim>\<open>client\<close> values are kept.\<close>

fun install_data_loop :: "(string \<times> json) list \<Rightarrow> (string \<times> json) list \<Rightarrow> error + (string \<times> json) list" where
  "install_data_loop [] data_acc = Inr data_acc"
| "install_data_loop ((data_key, data_val) # rest) data_acc =
     (case py_getitem data_val ''client'' of
        Inl e \<Rightarrow> Inl e
      | Inr client \<Rightarrow> install_data_loop rest (AList.update data_key client data_acc))"

text \<open>The branch of the modern profiles, lines 177 to 208, up to the metadata read.\<close>

definition fetch_modern :: "core \<Rightarrow> archive \<Rightarrow> json \<Rightarrow> forge_obj \<Rightarrow> error + json \<times> forge_obj" where
  "fetch_modern env install_jar install_profile self =
     bnd (py_getitem install_profile ''json'') (\<lambda>json_entry.
     bnd (py_str json_entry) (\<lambda>json_entry.
     bnd (zip_open install_jar (JStr (dropWhile (\<lambda>c. c = CHR ''/'') json_entry))) (\<lambda>fp.
     bnd (ext (json_load env fp)) (\<lambda>version_meta.
     bnd (py_getitem version_meta ''libraries'') (\<lambda>version_libraries.
     bnd (py_getitem install_profile ''processors'') (\<lambda>processors.
       let self = self\<lparr> forge_install_version_libraries := Some version_libraries,
                         forge_install_processors := Some processors,
                         forge_install_data := Some [],
                         forge_install_libraries := Some [] \<rparr>
       in
     bnd (py_getitem install_profile ''libraries'') (\<lambda>install_libraries.
     bnd (py_iter install_libraries) (\<lambda>install_libraries.
     bnd (install_libs env install_jar install_libraries self) (\<lambda>self.
     bnd (py_getitem install_profile ''data'') (\<lambda>data.
     bnd (py_items data) (\<lambda>data_items.
     bnd (case forge_install_data self of
            None \<Rightarrow> Inl TypeError
          | Some data_acc \<Rightarrow> install_data_loop data_items data_acc) (\<lambda>forge_data.
       Inr (version_meta, self\<lparr> forge_install_data := Some forge_data \<rparr>)))))))))))))"

text \<open>
  Lines 218 to 224: the keys that older profiles add to a library are deleted from it,
  each behind its own membership test.
\<close>

definition strip_key :: "string \<Rightarrow> json \<Rightarrow> error + json" where
  "strip_key k version_lib =
     bnd (py_contains k version_lib) (\<lambda>present.
       if present then py_delitem version_lib k else Inr version_lib)"

definition strip_legacy_keys :: "json \<Rightarrow> error + json" where
  "strip_legacy_keys version_lib =
     bnd (strip_key ''serverreq'' version_lib) (\<lambda>version_lib.
     bnd (strip_key ''clientreq'' version_lib) (\<lambda>version_lib.
       strip_key ''checksums'' version_lib))"

fun strip_libraries :: "json list \<Rightarrow> error + json list" where
  "strip_libraries [] = Inr []"
| "strip_libraries (version_lib # rest) =
     (case strip_legacy_keys version_lib of
        Inl e \<Rightarrow> Inl e
      | Inr version_lib \<Rightarrow>
          (case strip_libraries rest of
             Inl e \<Rightarrow> Inl e
           | Inr rest \<Rightarrow> Inr (version_lib # rest)))"

text \<open>
  The branch of the older profiles, lines 213 to 232. The libraries are changed in place:
  when they are a list, the metadata holds the stripped libraries afterwards; the keys of
  a dict and the characters of a str, which the loop would visit otherwise, cannot change.
\<close>

definition fetch_legacy :: "core \<Rightarrow> archive \<Rightarrow> json \<Rightarrow> forge_obj \<Rightarrow> error + json \<times> forge_obj" where
  "fetch_legacy env install_jar install_profile self =
     bnd (py_get install_profile ''versionInfo'') (\<lambda>version_meta.
       if version_meta = JNull then Inl (ForgeError VERSION_META_NOT_FOUND (forge_version self))
       else
     bnd (py_getitem version_meta ''libraries'') (\<lambda>version_libraries.
     bnd (py_iter version_libraries) (\<lambda>version_libs.
     bnd (strip_libraries version_libs) (\<lambda>stripped.
     bnd (case version_libraries of
            JArr xs \<Rightarrow> py_setitem version_meta ''libraries'' (JArr stripped)
          | _ \<Rightarrow> Inr version_meta) (\<lambda>version_meta.
     bnd (py_getitem install_profile ''install'') (\<lambda>install.
     bnd (py_getitem install ''filePath'') (\<lambda>jar_entry_path.
     bnd (py_getitem install_profile ''install'') (\<lambda>install.
     bnd (py_getitem install ''path'') (\<lambda>jar_spec_json.
     bnd (py_str jar_spec_json) (\<lambda>jar_spec_str.
     bnd (ext (file_path env jar_spec_str)) (\<lambda>jar_spec_file_path.
       let jar_path = path_join env (libraries_dir self) jar_spec_file_path in
     bnd (zip_extract_file install_jar jar_entry_path jar_path (fs self)) (\<lambda>files.
       Inr (version_meta, self\<lparr> fs := files \<rparr>)))))))))))))"

text \<open>
  The block of lines 153 to 235, on the archive found. The test
  \<^verbatim>\<open>"json" in install_profile\<close> selects the branch; both end in lines 234 and 235.
\<close>

definition parse_install_jar :: "core \<Rightarrow> string \<Rightarrow> archive \<Rightarrow> forge_obj \<Rightarrow> error + json \<times> forge_obj" where
  "parse_install_jar env version_id install_jar self =
     bnd (read_install_profile env (forge_version self) install_jar) (\<lambda>install_profile.
     bnd (py_contains ''json'' install_profile) (\<lambda>modern.
     bnd (if modern then fetch_modern env install_jar install_profile self
          else fetch_legacy env install_jar install_profile self) (\<lambda>(version_meta, self).
     bnd (py_setitem version_meta ''id'' (JStr version_id)) (\<lambda>version_meta.
       Inr (version_meta, self)))))"

text \<open>The method. An identifier other than the object's own goes to the base class.\<close>

definition fetch_version_meta :: "core \<Rightarrow> string \<Rightarrow> string \<Rightarrow> string \<Rightarrow> forge_obj \<Rightarrow> error + json \<times> forge_obj" where
  "fetch_version_meta env version_id version_dir version_meta_file self =
     (if version_id \<noteq> self_id self
      then ext (super_fetch_version_meta env version_id version_dir version_meta_file self)
      else
        bnd (find_install_jar env (forge_version self) (suffixes_of (forge_version self))) (\<lambda>found.
          case found of
            None \<Rightarrow> Inl (ForgeError INSTALLER_NOT_FOUND (forge_version self))
          | Some install_jar \<Rightarrow> parse_install_jar env version_id install_jar self))"

section \<open>\<^verbatim>\<open>ForgeVersion.prepare_libraries\<close>\<close>

text \<open>The list comprehension of lines 243 to 245: \<^verbatim>\<open>lib.get("downloads")\<close> as a condition.\<close>

fun keep_downloads :: "json list \<Rightarrow> error + json list" where
  "keep_downloads [] = Inr []"
| "keep_downloads (lib # rest) =
     (case py_get lib ''downloads'' of
        Inl e \<Rightarrow> Inl e
      | Inr downloads \<Rightarrow>
          (case keep_downloads rest of
             Inl e \<Rightarrow> Inl e
           | Inr kept \<Rightarrow> Inr (if py_truthy downloads then lib # kept else kept)))"

definition filter_version_libraries :: "forge_obj \<Rightarrow> error + forge_obj" where
  "filter_version_libraries self =
     (if forge_install_libraries self \<noteq> None then
        bnd (py_getitem (version_meta self) ''libraries'') (\<lambda>libraries.
        bnd (py_iter libraries) (\<lambda>libs.
        bnd (keep_downloads libs) (\<lambda>kept.
        bnd (py_setitem (version_meta self) ''libraries'' (JArr kept)) (\<lambda>version_meta'.
          Inr (self\<lparr> version_meta := version_meta' \<rparr>)))))
      else Inr self)"

definition prepare_libraries :: "core \<Rightarrow> forge_obj \<Rightarrow> error + forge_obj" where
  "prepare_libraries env self =
     bnd (filter_version_libraries self) (\<lambda>self. ext (super_prepare_libraries env self))"

section \<open>\<^verbatim>\<open>ForgeVersion.prepare_post\<close>\<close>

text \<open>
  \<^verbatim>\<open>self.install_lib_paths[lib_name]\<close>: \<^verbatim>\<open>AttributeError\<close> when the object has no such
  attribute; \<^verbatim>\<open>None\<close> cannot be subscripted; \<^verbatim>\<open>KeyError\<close> for a name the dict has not.
\<close>

definition lib_path_of :: "forge_obj \<Rightarrow> string \<Rightarrow> error + string" where
  "lib_path_of self lib_name =
     (case install_lib_paths self of
        Absent \<Rightarrow> Inl (AttributeError ''install_lib_paths'')
      | Present None \<Rightarrow> Inl TypeError
      | Present (Some paths) \<Rightarrow>
          (case map_of paths lib_name of
             None \<Rightarrow> Inl (KeyError lib_name)
           | Some lib_path \<Rightarrow> Inr lib_path))"

text \<open>
  \<^verbatim>\<open>replace_install_vars\<close>, lines 259 to 264. \<^verbatim>\<open>txt[0]\<close> is evaluated first and raises
  \<^verbatim>\<open>IndexError\<close> on the empty string; \<^verbatim>\<open>txt[-1]\<close> is the last character and \<^verbatim>\<open>txt[1:-1]\<close>
  is the string without its first and last characters. In the fallback
  \<^verbatim>\<open>self.install_data\<close> is read first, then the function of the core is called.
\<close>

definition replace_install_vars :: "core \<Rightarrow> forge_obj \<Rightarrow> string \<Rightarrow> error + string" where
  "replace_install_vars env self txt =
     (if txt = [] then Inl IndexError
      else if txt ! 0 = CHR ''['' \<and> txt ! (length txt - 1) = CHR '']''
      then lib_path_of self (take (length txt - 1 - 1) (drop 1 txt))
      else (case install_data self of
              Absent \<Rightarrow> Inl (AttributeError ''install_data'')
            | Present data \<Rightarrow> ext (replace_vars env txt data)))"

text \<open>A list comprehension over a fallible function.\<close>

fun map_err :: "('a \<Rightarrow> error + 'b) \<Rightarrow> 'a list \<Rightarrow> error + 'b list" where
  "map_err f [] = Inr []"
| "map_err f (x # xs) =
     (case f x of
        Inl e \<Rightarrow> Inl e
      | Inr y \<Rightarrow> (case map_err f xs of Inl e \<Rightarrow> Inl e | Inr ys \<Rightarrow> Inr (y # ys)))"

text \<open>\<^verbatim>\<open>sep.join(xs)\<close>.\<close>

fun join :: "string \<Rightarrow> string list \<Rightarrow> string" where
  "join sep [] = []"
| "join sep [x] = x"
| "join sep (x # y # ys) = x @ sep @ join sep (y # ys)"

text \<open>
  One processor, lines 268 to 274. The executable is a string here: the check before the
  loop has raised when there are processors and none is configured.
\<close>

definition run_processor :: "core \<Rightarrow> processor \<Rightarrow> forge_obj \<Rightarrow> error + forge_obj" where
  "run_processor env processor self =
     bnd (case jar processor of None \<Rightarrow> Inl (KeyError ''jar'') | Some jar_name \<Rightarrow> Inr jar_name) (\<lambda>jar_name.
     bnd (lib_path_of self jar_name) (\<lambda>jar_path.
     bnd (map_err (lib_path_of self) (case classpath processor of None \<Rightarrow> [] | Some names \<Rightarrow> names)) (\<lambda>classpath.
     bnd (map_err (replace_install_vars env self) (case args processor of None \<Rightarrow> [] | Some templates \<Rightarrow> templates)) (\<lambda>args.
     bnd (case jvm_exec self of None \<Rightarrow> Inl TypeError | Some exec \<Rightarrow> Inr exec) (\<lambda>exec.
       let all_args = [exec, ''-cp'', join (pathsep env) classpath, ''-jar'', jar_path] @ args in
     bnd (ext (subprocess_run env all_args (fs self))) (\<lambda>files.
       Inr (self\<lparr> fs := files \<rparr>)))))))"

fun run_processors :: "core \<Rightarrow> processor list \<Rightarrow> forge_obj \<Rightarrow> error + forge_obj" where
  "run_processors env [] self = Inr self"
| "run_processors env (processor # rest) self =
     (case run_processor env processor self of
        Inl e \<Rightarrow> Inl e
      | Inr self \<Rightarrow> run_processors env rest self)"

text \<open>
  The method, lines 249 to 276. Line 254 reads \<^verbatim>\<open>self.install_lib_paths\<close> and line 256
  reads \<^verbatim>\<open>self.install_processors\<close>; each read raises \<^verbatim>\<open>AttributeError\<close> on an object
  that has not the attribute.
\<close>

definition prepare_post :: "core \<Rightarrow> forge_obj \<Rightarrow> error + forge_obj" where
  "prepare_post env self =
     bnd (ext (super_prepare_post env self)) (\<lambda>self.
       case install_lib_paths self of
         Absent \<Rightarrow> Inl (AttributeError ''install_lib_paths'')
       | Present None \<Rightarrow> Inr self
       | Present (Some paths) \<Rightarrow>
           (case install_processors self of
              Absent \<Rightarrow> Inl (AttributeError ''install_processors'')
            | Present processors \<Rightarrow>
                if length processors \<noteq> 0 \<and> jvm_exec self = None
                then Inl (ForgeError REQUIRES_JVM (forge_version self))
                else run_processors env processors self))"

section \<open>Concrete inputs\<close>

text \<open>
  A promotion feed and a manifest for which \<^verbatim>\<open>release\<close> is an alias of game version
  1.20.1, and a second resolver whose feed promotes nothing and whose manifest resolves
  \<^verbatim>\<open>release\<close> to 1.21.
\<close>

definition promo_demo :: promos where
  "promo_demo = [''1.20.1'' \<mapsto> ''47.2.0'', ''1.20.1-recommended'' \<mapsto> ''47.1.0'',
                 ''1.20.1-latest'' \<mapsto> ''47.3.0'', ''1.19.4-recommended'' \<mapsto> ''45.1.0'']"

definition resolver_demo :: resolver_env where
  "resolver_demo =
     \<lparr> filter_latest = (\<lambda>v. if v = ''release'' then Inr (''1.20.1'', True) else Inr (v, False)),
       json_simple_request = (\<lambda>url. Inr [''promos'' \<mapsto> promo_demo]) \<rparr>"

definition resolver_bare :: resolver_env where
  "resolver_bare =
     \<lparr> filter_latest = (\<lambda>v. if v = ''release'' then Inr (''1.21'', True) else Inr (v, False)),
       json_simple_request = (\<lambda>url. Inr [''promos'' \<mapsto> Map.empty]) \<rparr>"

text \<open>
  An object as the base constructor leaves it (the three attributes that only
  \<^verbatim>\<open>prepare_post\<close> names are not among those it assigns), a core whose functions do the
  least, and an object on which the three attributes have been set by hand: one library
  path, one processor, no data and no executable.
\<close>

definition base_obj :: forge_obj where
  "base_obj =
     \<lparr> self_id = '''', forge_version = '''', libraries_dir = ''/libs'',
       forge_install_libraries = None, forge_install_processors = None,
       forge_install_data = None, forge_install_version_libraries = None,
       install_lib_paths = Absent, install_processors = Absent, install_data = Absent,
       jvm_exec = None, version_meta = JNull, dl = [], fs = Map.empty \<rparr>"

definition core_plain :: core where
  "core_plain =
     \<lparr> http_request = (\<lambda>url. Inr (404, '''')),
       ZipFile = (\<lambda>raw. Inl ''BadZipFile''),
       json_load = (\<lambda>fp. Inl ''JSONDecodeError''),
       file_path = (\<lambda>s. Inr s),
       path_join = (\<lambda>a b. a @ ''/'' @ b),
       pathsep = '':'',
       from_meta = (\<lambda>info dst. Inl ''KeyError''),
       replace_vars = (\<lambda>txt data. Inr txt),
       subprocess_run = (\<lambda>all_args files. Inr files),
       super_fetch_version_meta = (\<lambda>version_id version_dir version_meta_file self. Inl ''VersionError''),
       super_prepare_libraries = Inr,
       super_prepare_post = Inr \<rparr>"

definition obj_post :: forge_obj where
  "obj_post =
     (ForgeVersion_init base_obj ''1.20.1-47.2.0'' ''forge'')
       \<lparr> install_lib_paths := Present (Some [(''foo'', ''/libs/foo.jar'')]),
         install_processors :=
           Present [\<lparr> jar = Some ''foo'', classpath = None, args = Some [''[foo]'', ''--side''] \<rparr>],
         install_data := Present None \<rparr>"

text \<open>
  Two installer archives. The modern one points to \<^verbatim>\<open>version.json\<close> and declares two
  libraries, one with an URL and one (with an empty URL) stored under \<^verbatim>\<open>maven/\<close>; the
  metadata it holds has an identifier of its own and libraries of its own. The older one
  holds its metadata under \<^verbatim>\<open>versionInfo\<close>. Archive entries and response bodies are given
  by short names, which \<open>json_load\<close> and \<open>ZipFile\<close> of the core below resolve.
\<close>

definition artifact_url :: json where
  "artifact_url = JObj [(''url'', JStr ''https://x/a.jar''), (''size'', JInt 5)]"

definition lib_url :: json where
  "lib_url = JObj [(''name'', JStr ''a:lib:1''), (''downloads'', JObj [(''artifact'', artifact_url)])]"

definition artifact_embedded :: json where
  "artifact_embedded = JObj [(''url'', JStr ''''), (''size'', JInt 3)]"

definition lib_embedded :: json where
  "lib_embedded =
     JObj [(''name'', JStr ''b:lib:2''), (''downloads'', JObj [(''artifact'', artifact_embedded)])]"

definition profile_modern :: json where
  "profile_modern =
     JObj [(''json'', JStr ''/version.json''),
           (''processors'', JArr []),
           (''libraries'', JArr [lib_url, lib_embedded]),
           (''data'', JObj [(''SIDE'', JObj [(''client'', JStr ''c''), (''server'', JStr ''s'')])])]"

definition version_modern :: json where
  "version_modern =
     JObj [(''id'', JStr ''embedded-id''),
           (''libraries'', JArr [JObj [(''name'', JStr ''c:lib:3''), (''downloads'', JObj [])],
                                 JObj [(''name'', JStr ''d:lib:4'')]])]"

definition jar_modern :: archive where
  "jar_modern = [''install_profile.json'' \<mapsto> ''profile-modern'',
                 ''version.json'' \<mapsto> ''version-modern'',
                 ''maven/b/lib/2.jar'' \<mapsto> ''abc'']"

definition profile_legacy :: json where
  "profile_legacy =
     JObj [(''install'', JObj [(''filePath'', JStr ''forge-universal.jar''), (''path'', JStr ''f:forge:1'')]),
           (''versionInfo'',
              JObj [(''id'', JStr ''old-id''),
                    (''libraries'', JArr [JObj [(''name'', JStr ''e:lib:5''), (''serverreq'', JBool True),
                                                (''clientreq'', JBool True), (''checksums'', JArr [])]])])]"

definition jar_legacy :: archive where
  "jar_legacy = [''install_profile.json'' \<mapsto> ''profile-legacy'',
                 ''forge-universal.jar'' \<mapsto> ''uni'']"

text \<open>
  A core that serves the modern installer for build 1.20.1-47.2.0 and the older one for
  build 1.7.10-10.13.4.1614 under the suffix \<^verbatim>\<open>-1.7.10\<close> only. Its \<open>file_path\<close> turns the
  colons of a library name into slashes and adds \<^verbatim>\<open>.jar\<close>; its \<open>from_meta\<close> reads the
  \<^verbatim>\<open>url\<close> and the \<^verbatim>\<open>size\<close> of the descriptor.
\<close>

definition core_demo :: core where
  "core_demo =
     core_plain
       \<lparr> http_request := (\<lambda>url.
            if url = install_jar_url ''1.20.1-47.2.0'' then Inr (200, ''jar-modern'')
            else if url = install_jar_url ''1.7.10-10.13.4.1614-1.7.10'' then Inr (200, ''jar-legacy'')
            else Inr (404, '''')),
         ZipFile := (\<lambda>raw.
            if raw = ''jar-modern'' then Inr jar_modern
            else if raw = ''jar-legacy'' then Inr jar_legacy
            else Inl ''BadZipFile''),
         json_load := (\<lambda>fp.
            if fp = ''profile-modern'' then Inr profile_modern
            else if fp = ''version-modern'' then Inr version_modern
            else if fp = ''profile-legacy'' then Inr profile_legacy
            else Inl ''JSONDecodeError''),
         file_path := (\<lambda>s. Inr (map (\<lambda>c. if c = CHR '':'' then CHR ''/'' else c) s @ ''.jar'')),
         from_meta := (\<lambda>info dst.
            Inr \<lparr> entry_url = (case py_get info ''url'' of Inr u \<Rightarrow> u | Inl e \<Rightarrow> JNull),
                  entry_dst = dst,
                  entry_size = (case py_get info ''size'' of Inr (JInt n) \<Rightarrow> Some n | _ \<Rightarrow> None) \<rparr>) \<rparr>"

definition obj_modern :: forge_obj where
  "obj_modern = ForgeVersion_init base_obj ''1.20.1-47.2.0'' ''forge''"

definition obj_legacy :: forge_obj where
  "obj_legacy = ForgeVersion_init base_obj ''1.7.10-10.13.4.1614'' ''forge''"

text \<open>
  A modern archive for the same build whose profile declares one processor and the
  library stored under \<^verbatim>\<open>maven/\<close>, and a core that serves it.
\<close>

definition processor_json :: json where
  "processor_json = JObj [(''jar'', JStr ''b:lib:2''), (''args'', JArr [JStr ''[b:lib:2]''])]"

definition profile_processing :: json where
  "profile_processing =
     JObj [(''json'', JStr ''/version.json''),
           (''processors'', JArr [processor_json]),
           (''libraries'', JArr [lib_embedded]),
           (''data'', JObj [])]"

definition jar_processing :: archive where
  "jar_processing = [''install_profile.json'' \<mapsto> ''profile-processing'',
                     ''version.json'' \<mapsto> ''version-modern'',
                     ''maven/b/lib/2.jar'' \<mapsto> ''abc'']"

definition core_processing :: core where
  "core_processing =
     core_demo
       \<lparr> http_request := (\<lambda>url.
            if url = install_jar_url ''1.20.1-47.2.0'' then Inr (200, ''jar-processing'')
            else Inr (404, '''')),
         ZipFile := (\<lambda>raw.
            if raw = ''jar-processing'' then Inr jar_processing else Inl ''BadZipFile''),
         json_load := (\<lambda>fp.
            if fp = ''profile-processing'' then Inr profile_processing
            else if fp = ''version-modern'' then Inr version_modern
            else Inl ''JSONDecodeError'') \<rparr>"

text \<open>
  The modern object once the parser has emptied its manifest, the same with the file of
  the first library already on disk with the 5 bytes its descriptor declares, and an
  object whose metadata is that of the modern archive: its first library has a
  \<^verbatim>\<open>downloads\<close> key bound to an empty descriptor, its second has no such key.
\<close>

definition obj_installing :: forge_obj where
  "obj_installing = obj_modern\<lparr> forge_install_libraries := Some [] \<rparr>"

definition obj_present :: forge_obj where
  "obj_present = obj_installing\<lparr> fs := [''/libs/a/lib/1.jar'' \<mapsto> ''12345''] \<rparr>"

definition obj_installed :: forge_obj where
  "obj_installed = obj_installing\<lparr> version_meta := version_modern \<rparr>"

text \<open>
  An installing object whose metadata lists a library with a download descriptor and
  one without, and the same object when no install is in progress.
\<close>

definition obj_mixed :: forge_obj where
  "obj_mixed =
     obj_installing\<lparr> version_meta :=
       JObj [(''id'', JStr ''forge-1.20.1-47.2.0''),
             (''libraries'', JArr [lib_url, JObj [(''name'', JStr ''d:lib:4'')]])] \<rparr>"

definition obj_idle :: forge_obj where
  "obj_idle = obj_mixed\<lparr> forge_install_libraries := None \<rparr>"

section \<open>Properties of the resolver\<close>

lemma endswith_append: "endswith (b @ p) p"
  by (simp add: endswith_def)

lemma endswith_split: "endswith s p \<Longrightarrow> s = take (length s - length p) s @ p"
  by (metis append_take_drop_id endswith_def)

lemma promo_loop_hit:
  assumes "promo gv = Some build
         \<or> (promo gv = None \<and> promo (gv @ ''-recommended'') = Some build)
         \<or> (promo gv = None \<and> promo (gv @ ''-recommended'') = None \<and> promo (gv @ ''-latest'') = Some build)"
  shows "promo_loop promo gv ['''', ''-recommended'', ''-latest''] =
          Some ((if endswith gv ''-recommended'' then take (length gv - 12) gv
                 else if endswith gv ''-latest'' then take (length gv - 7) gv
                 else gv) @ ''-'' @ build)"
  using assms by auto

lemma promo_loop_miss:
  assumes "promo gv = None" "promo (gv @ ''-recommended'') = None" "promo (gv @ ''-latest'') = None"
  shows "promo_loop promo gv ['''', ''-recommended'', ''-latest''] = None"
  using assms by simp

text \<open>
  C1. When the promotion lookup is required (the game version the manifest returned is an
  alias, or ends with \<^verbatim>\<open>-recommended\<close> or \<^verbatim>\<open>-latest\<close>, or has no \<^verbatim>\<open>-\<close>), the keys
  \<open>gv\<close>, \<open>gv-recommended\<close> and \<open>gv-latest\<close> are looked up in this order, and the build of the
  first key found is the one used: the key \<open>gv\<close> itself wins over the two others whatever
  they are bound to. The result is \<open>base-build\<close>, where \<open>base\<close> is \<open>gv\<close> without its
  \<^verbatim>\<open>-recommended\<close> or \<^verbatim>\<open>-latest\<close> ending if it has one.
\<close>

theorem new_version_promotion_first_hit:
  assumes pre: "startswith version_id ''forge:''"
    and rem: "rem = (if drop 6 version_id = [] then ''release'' else drop 6 version_id)"
    and fl: "filter_latest env rem = Inr (gv, is_alias)"
    and req: "is_alias \<or> endswith gv ''-recommended'' \<or> endswith gv ''-latest'' \<or> CHR ''-'' \<notin> set gv"
    and promo: "request_promo_versions env = Inr promo"
    and hit: "promo gv = Some build
         \<or> (promo gv = None \<and> promo (gv @ ''-recommended'') = Some build)
         \<or> (promo gv = None \<and> promo (gv @ ''-recommended'') = None \<and> promo (gv @ ''-latest'') = Some build)"
  shows "\<exists>base. new_version env forge_prefix version_id = Inr (Forge (base @ ''-'' @ build) forge_prefix)
          \<and> gv = base @ (if endswith gv ''-recommended'' then ''-recommended''
                          else if endswith gv ''-latest'' then ''-latest'' else '''')"
proof -
  let ?base = "if endswith gv ''-recommended'' then take (length gv - 12) gv
               else if endswith gv ''-latest'' then take (length gv - 7) gv else gv"
  have loop: "promo_loop promo gv ['''', ''-recommended'', ''-latest''] = Some (?base @ ''-'' @ build)"
    using hit by (rule promo_loop_hit)
  have lr: "lookup_required is_alias gv"
    using req by (simp add: lookup_required_def)
  have res: "new_version env forge_prefix version_id = Inr (Forge (?base @ ''-'' @ build) forge_prefix)"
    using pre fl lr promo loop unfolding new_version_def rem
    by (simp add: bnd_def ext_def Let_def del: promo_loop.simps)
  have len12: "length ''-recommended'' = 12" and len7: "length ''-latest'' = 7"
    by simp_all
  have r: "endswith gv ''-recommended'' \<Longrightarrow> gv = take (length gv - 12) gv @ ''-recommended''"
    using endswith_split [of gv "''-recommended''"] by (simp only: len12)
  have l: "endswith gv ''-latest'' \<Longrightarrow> gv = take (length gv - 7) gv @ ''-latest''"
    using endswith_split [of gv "''-latest''"] by (simp only: len7)
  have split: "gv = ?base @ (if endswith gv ''-recommended'' then ''-recommended''
                          else if endswith gv ''-latest'' then ''-latest'' else '''')"
  proof (cases "endswith gv ''-recommended''")
    case True
    with r show ?thesis by (simp only: if_True)
  next
    case False
    show ?thesis
    proof (cases "endswith gv ''-latest''")
      case True
      with False l show ?thesis by (simp only: if_True if_False)
    next
      case no: False
      with False show ?thesis by simp
    qed
  qed
  from res split show ?thesis by blast
qed

text \<open>
  The alias \<^verbatim>\<open>release\<close> with all three keys promoted takes the build of the exact key, and
  \<^verbatim>\<open>1.19.4-recommended\<close> loses its ending in the composed identifier.
\<close>

theorem new_version_promotion_first_hit_witness:
  "new_version resolver_demo ''forge'' ''forge:'' = Inr (Forge ''1.20.1-47.2.0'' ''forge'')
   \<and> new_version resolver_demo ''forge'' ''forge:1.19.4-recommended'' = Inr (Forge ''1.19.4-45.1.0'' ''forge'')"
proof -
  have p: "request_promo_versions resolver_demo = Inr promo_demo"
    by (simp add: request_promo_versions_def resolver_demo_def bnd_def ext_def)
  have a: "\<exists>base. new_version resolver_demo ''forge'' ''forge:'' = Inr (Forge (base @ ''-'' @ ''47.2.0'') ''forge'')
          \<and> ''1.20.1'' = base @ (if endswith ''1.20.1'' ''-recommended'' then ''-recommended''
                          else if endswith ''1.20.1'' ''-latest'' then ''-latest'' else '''')"
    by (rule new_version_promotion_first_hit [where rem = "''release''" and is_alias = True and promo = promo_demo, OF _ _ _ _ p])
       (simp_all add: startswith_def resolver_demo_def promo_demo_def)
  have b: "\<exists>base. new_version resolver_demo ''forge'' ''forge:1.19.4-recommended'' = Inr (Forge (base @ ''-'' @ ''45.1.0'') ''forge'')
          \<and> ''1.19.4-recommended'' = base @ (if endswith ''1.19.4-recommended'' ''-recommended'' then ''-recommended''
                          else if endswith ''1.19.4-recommended'' ''-latest'' then ''-latest'' else '''')"
    by (rule new_version_promotion_first_hit [where rem = "''1.19.4-recommended''" and is_alias = False and promo = promo_demo, OF _ _ _ _ p])
       (simp_all add: startswith_def resolver_demo_def promo_demo_def endswith_def)
  from a b show ?thesis by (auto simp: endswith_def)
qed

text \<open>
  C2. When no build was found (the lookup was not required, or none of the three keys is
  promoted): an alias fails with \<^verbatim>\<open>minecraft_version_not_supported\<close> carrying the game
  version; otherwise the remainder of the identifier is the build identifier as it is, and
  nothing is raised. \<open>rem\<close> is the remainder after the prefix (\<^verbatim>\<open>release\<close> when empty); for
  a request that is not an alias the manifest returns the requested name itself.
\<close>

theorem new_version_no_promotion:
  assumes pre: "startswith version_id ''forge:''"
    and rem: "rem = (if drop 6 version_id = [] then ''release'' else drop 6 version_id)"
    and fl: "filter_latest env rem = Inr (gv, is_alias)"
    and same: "\<not> is_alias \<Longrightarrow> gv = rem"
    and miss: "lookup_required is_alias gv \<Longrightarrow>
                 \<exists>promo. request_promo_versions env = Inr promo \<and> promo gv = None
                    \<and> promo (gv @ ''-recommended'') = None \<and> promo (gv @ ''-latest'') = None"
  shows "new_version env forge_prefix version_id =
           (if is_alias then Inl (ForgeError MINECRAFT_VERSION_NOT_SUPPORTED gv)
            else Inr (Forge rem forge_prefix))"
proof (cases "lookup_required is_alias gv")
  case True
  then obtain promo where p: "request_promo_versions env = Inr promo"
    and l: "promo_loop promo gv ['''', ''-recommended'', ''-latest''] = None"
    using miss by auto
  show ?thesis
    using pre fl True p l same unfolding new_version_def rem
    by (simp add: bnd_def ext_def Let_def del: promo_loop.simps)
next
  case False
  then have "\<not> is_alias" by (simp add: lookup_required_def)
  then show ?thesis
    using pre fl False same unfolding new_version_def rem
    by (simp add: bnd_def ext_def Let_def)
qed

text \<open>
  An alias without any promoted build fails; a full build identifier and a bare game
  version that the feed does not know are returned as they are.
\<close>

theorem new_version_no_promotion_witness:
  "new_version resolver_bare ''forge'' ''forge:'' = Inl (ForgeError MINECRAFT_VERSION_NOT_SUPPORTED ''1.21'')
   \<and> new_version resolver_demo ''forge'' ''forge:1.20.1-47.2.0'' = Inr (Forge ''1.20.1-47.2.0'' ''forge'')
   \<and> new_version resolver_demo ''forge'' ''forge:1.18'' = Inr (Forge ''1.18'' ''forge'')"
proof -
  have a: "new_version resolver_bare ''forge'' ''forge:'' =
             (if True then Inl (ForgeError MINECRAFT_VERSION_NOT_SUPPORTED ''1.21'')
              else Inr (Forge ''release'' ''forge''))"
    by (rule new_version_no_promotion)
       (simp_all add: startswith_def resolver_bare_def request_promo_versions_def bnd_def ext_def)
  have b: "new_version resolver_demo ''forge'' ''forge:1.20.1-47.2.0'' =
             (if False then Inl (ForgeError MINECRAFT_VERSION_NOT_SUPPORTED ''1.20.1-47.2.0'')
              else Inr (Forge ''1.20.1-47.2.0'' ''forge''))"
    by (rule new_version_no_promotion)
       (simp_all add: startswith_def resolver_demo_def lookup_required_def endswith_def)
  have c: "new_version resolver_demo ''forge'' ''forge:1.18'' =
             (if False then Inl (ForgeError MINECRAFT_VERSION_NOT_SUPPORTED ''1.18'')
              else Inr (Forge ''1.18'' ''forge''))"
    by (rule new_version_no_promotion)
       (simp_all add: startswith_def resolver_demo_def request_promo_versions_def bnd_def ext_def
          promo_demo_def)
  from a b c show ?thesis by simp
qed

section \<open>Properties of the processor pipeline\<close>

lemma lib_path_of_error:
  "lib_path_of self n = Inl e \<Longrightarrow>
     e = TypeError \<or> e = KeyError n \<or> e = AttributeError ''install_lib_paths''"
  by (auto simp: lib_path_of_def split: option.splits attr.splits)

lemma ext_error: "ext m = Inl e \<Longrightarrow> \<exists>msg. e = External msg"
  by (auto simp: ext_def split: sum.splits)

lemma replace_install_vars_nonempty:
  assumes "txt \<noteq> []"
  shows "replace_install_vars env self txt =
           (if hd txt = CHR ''['' \<and> last txt = CHR '']''
            then lib_path_of self (butlast (tl txt))
            else (case install_data self of
                    Absent \<Rightarrow> Inl (AttributeError ''install_data'')
                  | Present data \<Rightarrow> ext (replace_vars env txt data)))"
proof -
  have h: "txt ! 0 = hd txt" using assms by (simp add: hd_conv_nth)
  have l: "txt ! (length txt - 1) = last txt" using assms by (simp add: last_conv_nth)
  have m: "take (length txt - 1 - 1) (drop 1 txt) = butlast (tl txt)"
    by (simp add: butlast_conv_take drop_Suc)
  show ?thesis using assms unfolding replace_install_vars_def h l m by simp
qed

lemma replace_install_vars_error:
  assumes "replace_install_vars env self txt = Inl e"
  shows "(e = IndexError \<and> txt = []) \<or> e = TypeError \<or> (\<exists>n. e = KeyError n)
           \<or> (\<exists>a. e = AttributeError a) \<or> (\<exists>msg. e = External msg)"
proof (cases "txt = []")
  case True
  with assms show ?thesis by (simp add: replace_install_vars_def)
next
  case False
  from assms show ?thesis
    unfolding replace_install_vars_nonempty [OF False]
    by (auto split: if_splits attr.splits dest: lib_path_of_error ext_error)
qed

lemma map_err_error: "map_err f xs = Inl e \<Longrightarrow> \<exists>x \<in> set xs. f x = Inl e"
  by (induction xs) (auto split: sum.splits)

text \<open>
  C10. \<^verbatim>\<open>replace_install_vars\<close> reads the first and the last character of the template
  without a test for emptiness: on the empty template it raises \<^verbatim>\<open>IndexError\<close> and
  returns nothing. On every other template the bracket test is defined and decides
  between the library path and the generic substitution, and \<^verbatim>\<open>IndexError\<close> is not
  raised; so a list of templates that are all non-empty never raises it.
\<close>

theorem replace_install_vars_empty_template:
  "replace_install_vars env self [] = Inl IndexError
   \<and> (\<forall>txt. txt \<noteq> [] \<longrightarrow>
          replace_install_vars env self txt \<noteq> Inl IndexError
        \<and> replace_install_vars env self txt =
            (if hd txt = CHR ''['' \<and> last txt = CHR '']''
             then lib_path_of self (butlast (tl txt))
             else (case install_data self of
                     Absent \<Rightarrow> Inl (AttributeError ''install_data'')
                   | Present data \<Rightarrow> ext (replace_vars env txt data))))
   \<and> (\<forall>templates. (\<forall>txt \<in> set templates. txt \<noteq> []) \<longrightarrow>
          map_err (replace_install_vars env self) templates \<noteq> Inl IndexError)"
proof (intro conjI allI impI)
  show "replace_install_vars env self [] = Inl IndexError"
    by (simp add: replace_install_vars_def)
next
  fix tmpl :: "string"
  assume ne: "tmpl \<noteq> []"
  show "replace_install_vars env self tmpl \<noteq> Inl IndexError"
    using replace_install_vars_error [of env self tmpl IndexError] ne by auto
  show "replace_install_vars env self tmpl =
            (if hd tmpl = CHR ''['' \<and> last tmpl = CHR '']''
             then lib_path_of self (butlast (tl tmpl))
             else (case install_data self of
                     Absent \<Rightarrow> Inl (AttributeError ''install_data'')
                   | Present data \<Rightarrow> ext (replace_vars env tmpl data)))"
    using ne by (rule replace_install_vars_nonempty)
next
  fix templates :: "string list"
  assume all: "\<forall>tmpl \<in> set templates. tmpl \<noteq> []"
  show "map_err (replace_install_vars env self) templates \<noteq> Inl IndexError"
  proof
    assume "map_err (replace_install_vars env self) templates = Inl IndexError"
    then obtain tmpl where "tmpl \<in> set templates" "replace_install_vars env self tmpl = Inl IndexError"
      by (blast dest: map_err_error)
    with all show False
      using replace_install_vars_error [of env self tmpl IndexError] by auto
  qed
qed

text \<open>
  The two kinds of template on the object above, and the same list of arguments with
  and without an empty template in it.
\<close>

theorem replace_install_vars_empty_template_witness:
  "replace_install_vars core_plain obj_post ''[foo]'' = Inr ''/libs/foo.jar''
   \<and> replace_install_vars core_plain obj_post ''--side'' = Inr ''--side''
   \<and> map_err (replace_install_vars core_plain obj_post) [''[foo]'', ''--side''] \<noteq> Inl IndexError
   \<and> map_err (replace_install_vars core_plain obj_post) [''[foo]'', '''', ''--side''] = Inl IndexError"
proof -
  note t = replace_install_vars_empty_template [of core_plain obj_post]
  have a: "replace_install_vars core_plain obj_post ''[foo]'' = Inr ''/libs/foo.jar''"
    using t [THEN conjunct2, THEN conjunct1, rule_format, of "''[foo]''"]
    by (simp add: lib_path_of_def obj_post_def)
  have b: "replace_install_vars core_plain obj_post ''--side'' = Inr ''--side''"
    using t [THEN conjunct2, THEN conjunct1, rule_format, of "''--side''"]
    by (simp add: ext_def core_plain_def obj_post_def)
  have ne: "\<forall>txt \<in> set [''[foo]'', ''--side'']. txt \<noteq> []"
    by simp
  from t have "\<forall>templates. (\<forall>txt \<in> set templates. txt \<noteq> []) \<longrightarrow>
          map_err (replace_install_vars core_plain obj_post) templates \<noteq> Inl IndexError"
    by blast
  with ne have c: "map_err (replace_install_vars core_plain obj_post) [''[foo]'', ''--side''] \<noteq> Inl IndexError"
    by blast
  have d: "map_err (replace_install_vars core_plain obj_post) [''[foo]'', '''', ''--side''] = Inl IndexError"
    using a t [THEN conjunct1] by simp
  from a b c d show ?thesis by simp
qed

text \<open>
  C5. A template of the form \<^verbatim>\<open>[name]\<close> becomes the path of the library \<open>name\<close> and every
  other template is to go through \<^verbatim>\<open>replace_vars\<close>. The empty template is not of the
  bracket form, and the generic substitution of the core above would return it as it is;
  \<^verbatim>\<open>replace_install_vars\<close> raises \<^verbatim>\<open>IndexError\<close> on it instead.
\<close>

theorem replace_install_vars_empty_not_generic:
  "replace_install_vars core_plain obj_post '''' = Inl IndexError
   \<and> (case install_data obj_post of
         Absent \<Rightarrow> Inl (AttributeError ''install_data'')
       | Present data \<Rightarrow> ext (replace_vars core_plain '''' data)) = Inr ''''"
  by (simp add: replace_install_vars_def ext_def core_plain_def obj_post_def)

lemma run_processor_error:
  "run_processor env processor self = Inl e \<Longrightarrow> \<forall>c v. e \<noteq> ForgeError c v"
  unfolding run_processor_def bnd_def Let_def
  by (auto split: sum.splits option.splits
      dest!: map_err_error lib_path_of_error ext_error replace_install_vars_error)

lemma run_processors_error:
  "run_processors env ps self = Inl e \<Longrightarrow> \<forall>c v. e \<noteq> ForgeError c v"
  by (induction ps arbitrary: self) (auto split: sum.splits dest: run_processor_error)

text \<open>
  The guard of \<^verbatim>\<open>prepare_post\<close>, on the attributes it reads: a \<^verbatim>\<open>ForgeError\<close> is raised in
  one case only, when after the step of the base class the object has library paths, a
  list of processors that is not empty, and no executable; it is \<^verbatim>\<open>requires_jvm\<close> with
  the forge version.
\<close>

lemma prepare_post_forge_error:
  "(prepare_post env self0 = Inl (ForgeError code version)) =
     (\<exists>self paths processors. super_prepare_post env self0 = Inr self
        \<and> install_lib_paths self = Present (Some paths)
        \<and> install_processors self = Present processors
        \<and> processors \<noteq> [] \<and> jvm_exec self = None
        \<and> code = REQUIRES_JVM \<and> version = forge_version self)"
proof (cases "super_prepare_post env self0")
  case (Inl msg)
  then show ?thesis by (simp add: prepare_post_def bnd_def ext_def)
next
  case (Inr self)
  show ?thesis
  proof (cases "install_lib_paths self")
    case Absent
    with Inr show ?thesis by (simp add: prepare_post_def bnd_def ext_def)
  next
    case (Present paths_opt)
    show ?thesis
    proof (cases paths_opt)
      case None
      with Inr Present show ?thesis by (simp add: prepare_post_def bnd_def ext_def)
    next
      case (Some paths)
      show ?thesis
      proof (cases "install_processors self")
        case Absent
        with Inr Present Some show ?thesis by (simp add: prepare_post_def bnd_def ext_def)
      next
        case procs: (Present processors)
        with Inr Present Some show ?thesis
          using run_processors_error [of env processors self "ForgeError code version"]
          by (auto simp: prepare_post_def bnd_def ext_def)
      qed
    qed
  qed
qed

lemma prepare_post_absent:
  assumes "super_prepare_post env self0 = Inr self" and "install_lib_paths self = Absent"
  shows "prepare_post env self0 = Inl (AttributeError ''install_lib_paths'')"
  using assms by (simp add: prepare_post_def bnd_def ext_def)

text \<open>
  C6. In the post-processing of a modern install with a processor and no executable,
  \<^verbatim>\<open>requires_jvm\<close> is to be raised. The guard reads \<^verbatim>\<open>self.install_lib_paths\<close> and
  \<^verbatim>\<open>self.install_processors\<close>, while the constructor and the parser write
  \<^verbatim>\<open>self.forge_install_libraries\<close> and \<^verbatim>\<open>self.forge_install_processors\<close>. So after the
  modern archive with one processor is parsed on an object without executable, the
  manifest and the processor are on the object under the names the parser uses, and
  \<^verbatim>\<open>prepare_post\<close> raises \<^verbatim>\<open>AttributeError\<close> at its first read: \<^verbatim>\<open>requires_jvm\<close> is not
  raised.
\<close>

theorem prepare_post_after_modern_parse:
  "bnd (fetch_version_meta core_processing ''forge-1.20.1-47.2.0'' ''dir'' ''file'' obj_modern)
       (\<lambda>(version_meta', self').
          Inr (forge_install_libraries self', forge_install_processors self', jvm_exec self'))
     = Inr (Some [(''b:lib:2'', ''/libs/b/lib/2.jar'')], Some (JArr [processor_json]), None)
   \<and> bnd (fetch_version_meta core_processing ''forge-1.20.1-47.2.0'' ''dir'' ''file'' obj_modern)
       (\<lambda>(version_meta', self'). prepare_post core_processing self')
     = Inl (AttributeError ''install_lib_paths'')"
proof -
  have found: "find_install_jar core_processing (forge_version obj_modern)
                 (suffixes_of (forge_version obj_modern)) = Inr (Some jar_processing)"
    by (simp add: obj_modern_def ForgeVersion_init_def suffixes_of_def game_version_of_def
          legacy_suffixes_def request_install_jar_def core_processing_def bnd_def ext_def)
  have "\<exists>m s. fetch_modern core_processing jar_processing profile_processing obj_modern = Inr (m, s)
          \<and> (\<exists>kvs. m = JObj kvs)
          \<and> forge_install_libraries s = Some [(''b:lib:2'', ''/libs/b/lib/2.jar'')]
          \<and> forge_install_processors s = Some (JArr [processor_json])
          \<and> jvm_exec s = None \<and> install_lib_paths s = Absent"
    by (simp add: fetch_modern_def profile_processing_def bnd_def ext_def core_processing_def
          core_demo_def jar_processing_def version_modern_def install_lib_step_def
          lib_embedded_def artifact_embedded_def core_plain_def obj_modern_def
          ForgeVersion_init_def base_obj_def zip_extract_file_def Let_def)
  then have "\<exists>m s. parse_install_jar core_processing ''forge-1.20.1-47.2.0'' jar_processing obj_modern
                     = Inr (m, s)
          \<and> forge_install_libraries s = Some [(''b:lib:2'', ''/libs/b/lib/2.jar'')]
          \<and> forge_install_processors s = Some (JArr [processor_json])
          \<and> jvm_exec s = None \<and> install_lib_paths s = Absent"
    by (auto simp: parse_install_jar_def read_install_profile_def jar_processing_def
          core_processing_def bnd_def ext_def profile_processing_def)
  with found obtain m s where
    r: "fetch_version_meta core_processing ''forge-1.20.1-47.2.0'' ''dir'' ''file'' obj_modern = Inr (m, s)"
    and f: "forge_install_libraries s = Some [(''b:lib:2'', ''/libs/b/lib/2.jar'')]"
      "forge_install_processors s = Some (JArr [processor_json])" "jvm_exec s = None"
    and a: "install_lib_paths s = Absent"
    by (auto simp: fetch_version_meta_def bnd_def obj_modern_def ForgeVersion_init_def)
  have "super_prepare_post core_processing s = Inr s"
    by (simp add: core_processing_def core_demo_def core_plain_def)
  then have "prepare_post core_processing s = Inl (AttributeError ''install_lib_paths'')"
    using a by (rule prepare_post_absent)
  with r f show ?thesis by (simp add: bnd_def)
qed

section \<open>Which errors the parser raises\<close>


lemma bnd_Inr:
  assumes "bnd m f = Inr r"
  obtains v where "m = Inr v" "f v = Inr r"
  using assms by (cases m) (auto simp: bnd_def)

























lemma py_setitem_getitem: "py_setitem j k x = Inr j' \<Longrightarrow> py_getitem j' k = Inr x"
  by (cases j) (auto simp: update_conv')

lemma parse_install_jar_id:
  assumes "parse_install_jar env version_id install_jar self = Inr (version_meta', self')"
  shows "py_getitem version_meta' ''id'' = Inr (JStr version_id)"
  using assms unfolding parse_install_jar_def
  by (auto elim!: bnd_Inr dest: py_setitem_getitem split: if_splits)

section \<open>Properties of the installer fetch\<close>









section \<open>Properties of the install-profile parser\<close>

text \<open>
  C8. When the object's own identifier is fetched and the install profile is parsed with
  success, in the modern or in the older schema, the metadata returned has the key
  \<^verbatim>\<open>id\<close> bound to the identifier the caller gave, whatever the archive's metadata holds.
\<close>

theorem fetch_version_meta_id:
  assumes "fetch_version_meta env version_id version_dir version_meta_file self
             = Inr (version_meta', self')"
    and "version_id = self_id self"
  shows "py_getitem version_meta' ''id'' = Inr (JStr version_id)"
proof -
  from assms obtain install_jar where
    "parse_install_jar env version_id install_jar self = Inr (version_meta', self')"
    by (auto simp: fetch_version_meta_def elim!: bnd_Inr split: option.splits)
  then show ?thesis by (rule parse_install_jar_id)
qed

text \<open>
  Both archives above are parsed with success, and the identifiers they embed
  (\<^verbatim>\<open>embedded-id\<close>, \<^verbatim>\<open>old-id\<close>) are replaced by the one requested.
\<close>

theorem fetch_version_meta_id_witness:
  "bnd (fetch_version_meta core_demo ''forge-1.20.1-47.2.0'' ''dir'' ''file'' obj_modern)
       (\<lambda>(version_meta', self'). py_getitem version_meta' ''id'') = Inr (JStr ''forge-1.20.1-47.2.0'')
   \<and> py_getitem version_modern ''id'' = Inr (JStr ''embedded-id'')
   \<and> bnd (fetch_version_meta core_demo ''forge-1.7.10-10.13.4.1614'' ''dir'' ''file'' obj_legacy)
       (\<lambda>(version_meta', self'). py_getitem version_meta' ''id'') = Inr (JStr ''forge-1.7.10-10.13.4.1614'')
   \<and> bnd (py_getitem profile_legacy ''versionInfo'') (\<lambda>info. py_getitem info ''id'') = Inr (JStr ''old-id'')"
proof -
  have idm: "''forge-1.20.1-47.2.0'' = self_id obj_modern"
    and idl: "''forge-1.7.10-10.13.4.1614'' = self_id obj_legacy"
    by (simp_all add: obj_modern_def obj_legacy_def ForgeVersion_init_def)
  have fm: "find_install_jar core_demo (forge_version obj_modern) (suffixes_of (forge_version obj_modern))
              = Inr (Some jar_modern)"
    by (simp add: obj_modern_def ForgeVersion_init_def suffixes_of_def game_version_of_def
          legacy_suffixes_def request_install_jar_def core_demo_def bnd_def ext_def)
  have fl: "find_install_jar core_demo (forge_version obj_legacy) (suffixes_of (forge_version obj_legacy))
              = Inr (Some jar_legacy)"
    by (simp add: obj_legacy_def ForgeVersion_init_def suffixes_of_def game_version_of_def
          legacy_suffixes_def request_install_jar_def core_demo_def bnd_def ext_def
          install_jar_url_def)
  have "\<exists>m s. fetch_modern core_demo jar_modern profile_modern obj_modern = Inr (m, s)
           \<and> (\<exists>kvs. m = JObj kvs)"
    by (simp add: fetch_modern_def profile_modern_def bnd_def ext_def core_demo_def jar_modern_def
          version_modern_def install_lib_step_def lib_url_def lib_embedded_def artifact_url_def
          artifact_embedded_def core_plain_def obj_modern_def ForgeVersion_init_def base_obj_def
          zip_extract_file_def needs_download_def Let_def)
  then have "\<exists>m s. parse_install_jar core_demo ''forge-1.20.1-47.2.0'' jar_modern obj_modern = Inr (m, s)"
    by (auto simp: parse_install_jar_def read_install_profile_def jar_modern_def core_demo_def
          bnd_def ext_def profile_modern_def)
  with fm idm obtain m s where
    rm: "fetch_version_meta core_demo ''forge-1.20.1-47.2.0'' ''dir'' ''file'' obj_modern = Inr (m, s)"
    by (auto simp: fetch_version_meta_def bnd_def)
  have "\<exists>m s. fetch_legacy core_demo jar_legacy profile_legacy obj_legacy = Inr (m, s)
           \<and> (\<exists>kvs. m = JObj kvs)"
    by (simp add: fetch_legacy_def profile_legacy_def bnd_def ext_def core_demo_def jar_legacy_def
          strip_legacy_keys_def strip_key_def core_plain_def obj_legacy_def ForgeVersion_init_def
          base_obj_def zip_extract_file_def Let_def)
  then have "\<exists>m s. parse_install_jar core_demo ''forge-1.7.10-10.13.4.1614'' jar_legacy obj_legacy = Inr (m, s)"
    by (auto simp: parse_install_jar_def read_install_profile_def jar_legacy_def core_demo_def
          bnd_def ext_def profile_legacy_def)
  with fl idl obtain m' s' where
    rl: "fetch_version_meta core_demo ''forge-1.7.10-10.13.4.1614'' ''dir'' ''file'' obj_legacy = Inr (m', s')"
    by (auto simp: fetch_version_meta_def bnd_def)
  from fetch_version_meta_id [OF rm idm] fetch_version_meta_id [OF rl idl] rm rl
  show ?thesis
    by (simp add: bnd_def version_modern_def profile_legacy_def)
qed

section \<open>Properties of the library loop\<close>

lemma py_str_Inr: "(py_str j = Inr s) = (j = JStr s)"
  by (cases j) auto

text \<open>What one turn of the loop has read when it returns, and what it does then.\<close>

lemma install_lib_step_reads:
  assumes "install_lib_step env install_jar install_lib self = Inr self'"
  shows "\<exists>lib_name fp downloads artifact url n libs.
           py_getitem install_lib ''name'' = Inr (JStr lib_name)
         \<and> file_path env lib_name = Inr fp
         \<and> py_getitem install_lib ''downloads'' = Inr downloads
         \<and> py_getitem downloads ''artifact'' = Inr artifact
         \<and> py_getitem artifact ''url'' = Inr url
         \<and> py_len url = Inr n
         \<and> forge_install_libraries self = Some libs"
  using assms unfolding install_lib_step_def Let_def
  by (auto elim!: bnd_Inr simp: py_str_Inr ext_def split: sum.splits option.splits)

lemma install_lib_step_eval:
  assumes "py_getitem install_lib ''name'' = Inr (JStr lib_name)"
    and "file_path env lib_name = Inr fp"
    and "py_getitem install_lib ''downloads'' = Inr downloads"
    and "py_getitem downloads ''artifact'' = Inr artifact"
    and "py_getitem artifact ''url'' = Inr url"
    and "py_len url = Inr n"
    and "forge_install_libraries self = Some libs"
    and "lib_path = path_join env (libraries_dir self) fp"
    and "mid = self\<lparr> forge_install_libraries := Some (AList.update lib_name lib_path libs) \<rparr>"
  shows "install_lib_step env install_jar install_lib self =
           (if n \<noteq> 0 then
              (case from_meta env artifact lib_path of
                 Inl msg \<Rightarrow> Inl (External msg)
               | Inr e \<Rightarrow>
                   Inr (if needs_download (fs self) lib_path e then mid\<lparr> dl := dl self @ [e] \<rparr> else mid))
            else
              (case install_jar (''maven/'' @ fp) of
                 None \<Rightarrow> Inl (KeyError (''maven/'' @ fp))
               | Some content \<Rightarrow> Inr (mid\<lparr> fs := (fs self)(lib_path \<mapsto> content) \<rparr>)))"
  using assms
  by (simp add: install_lib_step_def bnd_def ext_def Let_def zip_extract_file_def
        split: sum.splits option.splits)

lemma needs_download_iff:
  "needs_download files lib_path e =
     (files lib_path = None
      \<or> (\<exists>sz content. entry_size e = Some sz \<and> files lib_path = Some content
            \<and> int (length content) \<noteq> sz))"
  by (auto simp: needs_download_def)

text \<open>
  C9. For a library of the modern profile whose artifact URL is not empty, the turn of
  the loop returns, leaves the files as they are, and appends the download entry built
  for the library to the pending list if and only if the destination file does not
  exist, or the entry declares a size and the file on disk has another one. Otherwise
  (the file is there and no size is declared, or the size is the declared one) the list
  is left as it is.
\<close>

theorem install_lib_step_download_iff:
  assumes "py_getitem install_lib ''name'' = Inr (JStr lib_name)"
    and "file_path env lib_name = Inr fp"
    and "py_getitem install_lib ''downloads'' = Inr downloads"
    and "py_getitem downloads ''artifact'' = Inr artifact"
    and "py_getitem artifact ''url'' = Inr url"
    and "py_len url = Inr n" and "n \<noteq> 0"
    and "forge_install_libraries self = Some libs"
    and "lib_path = path_join env (libraries_dir self) fp"
    and "from_meta env artifact lib_path = Inr lib_dl_entry"
  shows "\<exists>self'. install_lib_step env install_jar install_lib self = Inr self'
           \<and> fs self' = fs self
           \<and> dl self' =
               (if fs self lib_path = None
                   \<or> (\<exists>sz content. entry_size lib_dl_entry = Some sz
                         \<and> fs self lib_path = Some content \<and> int (length content) \<noteq> sz)
                then dl self @ [lib_dl_entry] else dl self)"
  using install_lib_step_eval [OF assms(1-6) assms(8,9) refl] assms(7,10)
  by (simp add: needs_download_iff)

text \<open>
  The library with an URL of the modern profile: queued when its file is missing, not
  queued when the file is there with the 5 bytes declared, queued again when the file has
  4 bytes.
\<close>

theorem install_lib_step_download_iff_witness:
  "map_sum id dl (install_lib_step core_demo jar_modern lib_url obj_installing)
     = Inr [\<lparr> entry_url = JStr ''https://x/a.jar'', entry_dst = ''/libs/a/lib/1.jar'', entry_size = Some 5 \<rparr>]
   \<and> map_sum id dl (install_lib_step core_demo jar_modern lib_url obj_present) = Inr []
   \<and> map_sum id dl (install_lib_step core_demo jar_modern lib_url
                       (obj_present\<lparr> fs := [''/libs/a/lib/1.jar'' \<mapsto> ''1234''] \<rparr>))
     = Inr [\<lparr> entry_url = JStr ''https://x/a.jar'', entry_dst = ''/libs/a/lib/1.jar'', entry_size = Some 5 \<rparr>]"
proof -
  let ?e = "\<lparr> entry_url = JStr ''https://x/a.jar'', entry_dst = ''/libs/a/lib/1.jar'', entry_size = Some 5 \<rparr>"
  have 1: "py_getitem lib_url ''name'' = Inr (JStr ''a:lib:1'')"
    and 2: "file_path core_demo ''a:lib:1'' = Inr ''a/lib/1.jar''"
    and 3: "py_getitem lib_url ''downloads'' = Inr (JObj [(''artifact'', artifact_url)])"
    and 4: "py_getitem (JObj [(''artifact'', artifact_url)]) ''artifact'' = Inr artifact_url"
    and 5: "py_getitem artifact_url ''url'' = Inr (JStr ''https://x/a.jar'')"
    and 6: "py_len (JStr ''https://x/a.jar'') = Inr 15" and 7: "(15::nat) \<noteq> 0"
    by (simp_all add: lib_url_def artifact_url_def core_demo_def)
  have 9: "from_meta core_demo artifact_url ''/libs/a/lib/1.jar'' = Inr ?e"
    by (simp add: core_demo_def artifact_url_def)
  let ?short = "obj_present\<lparr> fs := [''/libs/a/lib/1.jar'' \<mapsto> ''1234''] \<rparr>"
  have m: "forge_install_libraries obj_installing = Some []"
    "forge_install_libraries obj_present = Some []"
    "forge_install_libraries ?short = Some []"
    by (simp_all add: obj_present_def obj_installing_def)
  have p: "''/libs/a/lib/1.jar'' = path_join core_demo (libraries_dir obj_installing) ''a/lib/1.jar''"
    "''/libs/a/lib/1.jar'' = path_join core_demo (libraries_dir obj_present) ''a/lib/1.jar''"
    "''/libs/a/lib/1.jar'' = path_join core_demo (libraries_dir ?short) ''a/lib/1.jar''"
    by (simp_all add: obj_present_def obj_installing_def obj_modern_def ForgeVersion_init_def
          base_obj_def core_demo_def core_plain_def)
  have f: "fs obj_installing ''/libs/a/lib/1.jar'' = None"
    "fs obj_present ''/libs/a/lib/1.jar'' = Some ''12345''"
    "fs ?short ''/libs/a/lib/1.jar'' = Some ''1234''"
    by (simp_all add: obj_present_def obj_installing_def obj_modern_def ForgeVersion_init_def
          base_obj_def)
  have d: "dl obj_installing = []" "dl obj_present = []" "dl ?short = []"
    by (simp_all add: obj_present_def obj_installing_def obj_modern_def ForgeVersion_init_def
          base_obj_def)
  have sz: "entry_size ?e = Some 5" by simp
  from install_lib_step_download_iff [OF 1 2 3 4 5 6 7 m(1) p(1) 9, of jar_modern]
  obtain s1 where "install_lib_step core_demo jar_modern lib_url obj_installing = Inr s1"
    and "dl s1 = dl obj_installing @ [?e]"
    unfolding f(1) by auto
  then have a: "map_sum id dl (install_lib_step core_demo jar_modern lib_url obj_installing) = Inr [?e]"
    by (simp add: d)
  from install_lib_step_download_iff [OF 1 2 3 4 5 6 7 m(2) p(2) 9, of jar_modern]
  obtain s2 where "install_lib_step core_demo jar_modern lib_url obj_present = Inr s2"
    and "dl s2 = dl obj_present"
    unfolding f(2) sz by auto
  then have b: "map_sum id dl (install_lib_step core_demo jar_modern lib_url obj_present) = Inr []"
    by (simp add: d)
  from install_lib_step_download_iff [OF 1 2 3 4 5 6 7 m(3) p(3) 9, of jar_modern]
  obtain s3 where "install_lib_step core_demo jar_modern lib_url ?short = Inr s3"
    and "dl s3 = dl ?short @ [?e]"
    unfolding f(3) sz by auto
  then have c: "map_sum id dl (install_lib_step core_demo jar_modern lib_url ?short) = Inr [?e]"
    by (simp add: d)
  from a b c show ?thesis by simp
qed

text \<open>The loop over a list that is cut in two, and what it has done at each entry.\<close>

lemma install_libs_append:
  "install_libs env install_jar (xs @ ys) self =
     (case install_libs env install_jar xs self of
        Inl e \<Rightarrow> Inl e
      | Inr mid \<Rightarrow> install_libs env install_jar ys mid)"
  by (induction xs arbitrary: self) (auto split: sum.splits)

lemma install_libs_nth:
  assumes ok: "install_libs env install_jar libs self = Inr self'" and i: "i < length libs"
  shows "\<exists>before after.
           install_libs env install_jar (take i libs) self = Inr before
         \<and> install_lib_step env install_jar (libs ! i) before = Inr after
         \<and> install_libs env install_jar (take (Suc i) libs) self = Inr after"
proof -
  have cut: "libs = take i libs @ libs ! i # drop (Suc i) libs"
    using i by (rule id_take_nth_drop)
  have "install_libs env install_jar (take i libs @ libs ! i # drop (Suc i) libs) self = Inr self'"
    using ok cut by simp
  then obtain before after where b: "install_libs env install_jar (take i libs) self = Inr before"
    and s: "install_lib_step env install_jar (libs ! i) before = Inr after"
    unfolding install_libs_append by (auto split: sum.splits)
  have "take (Suc i) libs = take i libs @ [libs ! i]"
    using i by (rule take_Suc_conv_app_nth)
  with b s have "install_libs env install_jar (take (Suc i) libs) self = Inr after"
    by (simp add: install_libs_append)
  with b s show ?thesis by blast
qed

lemma install_lib_step_manifest:
  assumes "install_lib_step env install_jar install_lib self = Inr self'"
  shows "\<exists>lib_name fp libs.
           py_getitem install_lib ''name'' = Inr (JStr lib_name)
         \<and> file_path env lib_name = Inr fp
         \<and> forge_install_libraries self = Some libs
         \<and> forge_install_libraries self' =
              Some (AList.update lib_name (path_join env (libraries_dir self) fp) libs)
         \<and> libraries_dir self' = libraries_dir self"
proof -
  from install_lib_step_reads [OF assms]
  obtain lib_name fp downloads artifact url n libs where
    r: "py_getitem install_lib ''name'' = Inr (JStr lib_name)"
      "file_path env lib_name = Inr fp"
      "py_getitem install_lib ''downloads'' = Inr downloads"
      "py_getitem downloads ''artifact'' = Inr artifact"
      "py_getitem artifact ''url'' = Inr url"
      "py_len url = Inr n"
      "forge_install_libraries self = Some libs"
    by blast
  from assms have "forge_install_libraries self' =
              Some (AList.update lib_name (path_join env (libraries_dir self) fp) libs)
         \<and> libraries_dir self' = libraries_dir self"
    unfolding install_lib_step_eval [OF r refl refl]
    by (auto split: if_splits sum.splits option.splits)
  with r show ?thesis by blast
qed

lemma install_lib_step_effect:
  assumes "install_lib_step env install_jar install_lib self = Inr self'"
  shows "\<exists>lib_name fp downloads artifact url n.
           py_getitem install_lib ''name'' = Inr (JStr lib_name)
         \<and> file_path env lib_name = Inr fp
         \<and> py_getitem install_lib ''downloads'' = Inr downloads
         \<and> py_getitem downloads ''artifact'' = Inr artifact
         \<and> py_getitem artifact ''url'' = Inr url
         \<and> py_len url = Inr n
         \<and> (n \<noteq> 0 \<longrightarrow> fs self' = fs self
               \<and> (\<exists>e. from_meta env artifact (path_join env (libraries_dir self) fp) = Inr e
                    \<and> dl self' =
                        (if fs self (path_join env (libraries_dir self) fp) = None
                            \<or> (\<exists>sz content. entry_size e = Some sz
                                  \<and> fs self (path_join env (libraries_dir self) fp) = Some content
                                  \<and> int (length content) \<noteq> sz)
                         then dl self @ [e] else dl self)))
         \<and> (n = 0 \<longrightarrow> dl self' = dl self
               \<and> (\<exists>content. install_jar (''maven/'' @ fp) = Some content
                    \<and> fs self' = (fs self)(path_join env (libraries_dir self) fp \<mapsto> content)))"
proof -
  from install_lib_step_reads [OF assms]
  obtain lib_name fp downloads artifact url n libs where
    r: "py_getitem install_lib ''name'' = Inr (JStr lib_name)"
      "file_path env lib_name = Inr fp"
      "py_getitem install_lib ''downloads'' = Inr downloads"
      "py_getitem downloads ''artifact'' = Inr artifact"
      "py_getitem artifact ''url'' = Inr url"
      "py_len url = Inr n"
      "forge_install_libraries self = Some libs"
    by blast
  let ?dest = "path_join env (libraries_dir self) fp"
  have pos: "n \<noteq> 0 \<longrightarrow> fs self' = fs self
               \<and> (\<exists>e. from_meta env artifact ?dest = Inr e
                    \<and> dl self' = (if needs_download (fs self) ?dest e then dl self @ [e] else dl self))"
    using assms unfolding install_lib_step_eval [OF r refl refl]
    by (auto split: if_splits sum.splits)
  have zero: "n = 0 \<longrightarrow> dl self' = dl self
               \<and> (\<exists>content. install_jar (''maven/'' @ fp) = Some content
                    \<and> fs self' = (fs self)(?dest \<mapsto> content))"
    using assms unfolding install_lib_step_eval [OF r refl refl]
    by (auto split: if_splits option.splits)
  from r(1-6) pos zero show ?thesis
    unfolding needs_download_iff by blast
qed

lemma install_libs_manifest:
  assumes "install_libs env install_jar libs self = Inr self'"
    and "forge_install_libraries self = Some m0"
    and "\<forall>name path. map_of m0 name = Some path \<longrightarrow>
           (\<exists>fp. file_path env name = Inr fp \<and> path = path_join env (libraries_dir self) fp)"
  shows "\<exists>m. forge_install_libraries self' = Some m
           \<and> libraries_dir self' = libraries_dir self
           \<and> set (map fst m) =
               set (map fst m0) \<union> {name. \<exists>lib \<in> set libs. py_getitem lib ''name'' = Inr (JStr name)}
           \<and> (\<forall>name path. map_of m name = Some path \<longrightarrow>
                 (\<exists>fp. file_path env name = Inr fp \<and> path = path_join env (libraries_dir self) fp))"
  using assms
proof (induction libs arbitrary: self m0)
  case Nil
  then show ?case by simp
next
  case (Cons lib libs)
  from Cons.prems(1) obtain mid where s: "install_lib_step env install_jar lib self = Inr mid"
    and rest: "install_libs env install_jar libs mid = Inr self'"
    by (auto split: sum.splits)
  from install_lib_step_manifest [OF s] Cons.prems(2)
  obtain lib_name fp where n: "py_getitem lib ''name'' = Inr (JStr lib_name)"
    and f: "file_path env lib_name = Inr fp"
    and m1: "forge_install_libraries mid =
               Some (AList.update lib_name (path_join env (libraries_dir self) fp) m0)"
    and d: "libraries_dir mid = libraries_dir self"
    by auto
  let ?m1 = "AList.update lib_name (path_join env (libraries_dir self) fp) m0"
  have q1: "\<forall>name path. map_of ?m1 name = Some path \<longrightarrow>
           (\<exists>fp. file_path env name = Inr fp \<and> path = path_join env (libraries_dir mid) fp)"
    using Cons.prems(3) f by (auto simp: update_conv' d)
  from Cons.IH [OF rest m1 q1]
  obtain m where a: "forge_install_libraries self' = Some m"
    and b: "libraries_dir self' = libraries_dir mid"
    and c: "set (map fst m) =
               set (map fst ?m1) \<union> {name. \<exists>lib \<in> set libs. py_getitem lib ''name'' = Inr (JStr name)}"
    and e: "\<forall>name path. map_of m name = Some path \<longrightarrow>
                 (\<exists>fp. file_path env name = Inr fp \<and> path = path_join env (libraries_dir mid) fp)"
    by blast
  have k: "set (map fst ?m1) = insert lib_name (set (map fst m0))"
    by (auto simp: update_keys)
  have "set (map fst m) =
          set (map fst m0) \<union> {name. \<exists>l \<in> set (lib # libs). py_getitem l ''name'' = Inr (JStr name)}"
    unfolding c k using n by auto
  with a b d e show ?case by auto
qed

text \<open>The branch of the modern profiles, cut at the loop over the libraries.\<close>

lemma fetch_modern_loop:
  assumes "fetch_modern env install_jar install_profile self = Inr (version_meta', self')"
  shows "\<exists>install_libraries libs start final.
           py_getitem install_profile ''libraries'' = Inr install_libraries
         \<and> py_iter install_libraries = Inr libs
         \<and> forge_install_libraries start = Some []
         \<and> libraries_dir start = libraries_dir self
         \<and> fs start = fs self \<and> dl start = dl self
         \<and> install_libs env install_jar libs start = Inr final
         \<and> forge_install_libraries self' = forge_install_libraries final
         \<and> fs self' = fs final \<and> dl self' = dl final"
  using assms unfolding fetch_modern_def Let_def
  apply (elim bnd_Inr)
  subgoal for json_entry json_str fp version_meta version_libraries processors install_libraries libs final
    apply (rule exI [of _ install_libraries])
    apply (rule exI [of _ libs])
    apply (rule exI [of _ "self\<lparr> forge_install_version_libraries := Some version_libraries,
                         forge_install_processors := Some processors,
                         forge_install_data := Some [],
                         forge_install_libraries := Some [] \<rparr>"])
    apply (rule exI [of _ final])
    apply auto
    done
  done

text \<open>
  C3, as the code has it. When a modern profile is parsed with success, the manifest
  \<open>forge_install_libraries\<close> comes from the profile's own \<^verbatim>\<open>libraries\<close> (the loop starts
  from the empty manifest and runs over them; the libraries of the version metadata take
  no part): its keys are the names of these entries, and each name is bound to the
  destination \<open>path_join libraries_dir (file_path name)\<close>. At each entry, in order: if the
  URL of its artifact is not empty, no file is written and its download entry is appended
  to the pending list only when the destination file is missing or has not the size the
  entry declares; if the URL is empty, nothing is appended and the archive entry
  \<^verbatim>\<open>maven/\<close> followed by the file path is written to the destination at once.
\<close>

theorem fetch_modern_library_manifest:
  assumes "fetch_modern env install_jar install_profile self = Inr (version_meta', self')"
  shows "\<exists>install_libraries libs start final m.
           py_getitem install_profile ''libraries'' = Inr install_libraries
         \<and> py_iter install_libraries = Inr libs
         \<and> forge_install_libraries start = Some [] \<and> fs start = fs self \<and> dl start = dl self
         \<and> install_libs env install_jar libs start = Inr final
         \<and> forge_install_libraries self' = Some m \<and> fs self' = fs final \<and> dl self' = dl final
         \<and> set (map fst m) = {name. \<exists>lib \<in> set libs. py_getitem lib ''name'' = Inr (JStr name)}
         \<and> (\<forall>name path. map_of m name = Some path \<longrightarrow>
               (\<exists>fp. file_path env name = Inr fp \<and> path = path_join env (libraries_dir self) fp))
         \<and> (\<forall>i < length libs. \<exists>before after lib_name fp downloads artifact url n.
               install_libs env install_jar (take i libs) start = Inr before
             \<and> install_libs env install_jar (take (Suc i) libs) start = Inr after
             \<and> py_getitem (libs ! i) ''name'' = Inr (JStr lib_name)
             \<and> file_path env lib_name = Inr fp
             \<and> py_getitem (libs ! i) ''downloads'' = Inr downloads
             \<and> py_getitem downloads ''artifact'' = Inr artifact
             \<and> py_getitem artifact ''url'' = Inr url
             \<and> py_len url = Inr n
             \<and> (n \<noteq> 0 \<longrightarrow> fs after = fs before
                   \<and> (\<exists>e. from_meta env artifact (path_join env (libraries_dir self) fp) = Inr e
                        \<and> dl after =
                            (if fs before (path_join env (libraries_dir self) fp) = None
                                \<or> (\<exists>sz content. entry_size e = Some sz
                                      \<and> fs before (path_join env (libraries_dir self) fp) = Some content
                                      \<and> int (length content) \<noteq> sz)
                             then dl before @ [e] else dl before)))
             \<and> (n = 0 \<longrightarrow> dl after = dl before
                   \<and> (\<exists>content. install_jar (''maven/'' @ fp) = Some content
                        \<and> fs after = (fs before)(path_join env (libraries_dir self) fp \<mapsto> content))))"
proof -
  from fetch_modern_loop [OF assms]
  obtain install_libraries libs start final where
    l: "py_getitem install_profile ''libraries'' = Inr install_libraries"
      "py_iter install_libraries = Inr libs"
    and s: "forge_install_libraries start = Some []" "fs start = fs self" "dl start = dl self"
    and d: "libraries_dir start = libraries_dir self"
    and loop: "install_libs env install_jar libs start = Inr final"
    and f: "forge_install_libraries self' = forge_install_libraries final"
      "fs self' = fs final" "dl self' = dl final"
    by blast
  have "\<forall>name path. map_of [] name = Some path \<longrightarrow>
           (\<exists>fp. file_path env name = Inr fp \<and> path = path_join env (libraries_dir start) fp)"
    by simp
  from install_libs_manifest [OF loop s(1) this]
  obtain m where m: "forge_install_libraries final = Some m"
    and keys: "set (map fst m) = {name. \<exists>lib \<in> set libs. py_getitem lib ''name'' = Inr (JStr name)}"
    and paths: "\<forall>name path. map_of m name = Some path \<longrightarrow>
                 (\<exists>fp. file_path env name = Inr fp \<and> path = path_join env (libraries_dir self) fp)"
    unfolding d by auto
  have each: "\<forall>i < length libs. \<exists>before after lib_name fp downloads artifact url n.
               install_libs env install_jar (take i libs) start = Inr before
             \<and> install_libs env install_jar (take (Suc i) libs) start = Inr after
             \<and> py_getitem (libs ! i) ''name'' = Inr (JStr lib_name)
             \<and> file_path env lib_name = Inr fp
             \<and> py_getitem (libs ! i) ''downloads'' = Inr downloads
             \<and> py_getitem downloads ''artifact'' = Inr artifact
             \<and> py_getitem artifact ''url'' = Inr url
             \<and> py_len url = Inr n
             \<and> (n \<noteq> 0 \<longrightarrow> fs after = fs before
                   \<and> (\<exists>e. from_meta env artifact (path_join env (libraries_dir self) fp) = Inr e
                        \<and> dl after =
                            (if fs before (path_join env (libraries_dir self) fp) = None
                                \<or> (\<exists>sz content. entry_size e = Some sz
                                      \<and> fs before (path_join env (libraries_dir self) fp) = Some content
                                      \<and> int (length content) \<noteq> sz)
                             then dl before @ [e] else dl before)))
             \<and> (n = 0 \<longrightarrow> dl after = dl before
                   \<and> (\<exists>content. install_jar (''maven/'' @ fp) = Some content
                        \<and> fs after = (fs before)(path_join env (libraries_dir self) fp \<mapsto> content)))"
  proof (intro allI impI)
    fix i assume i: "i < length libs"
    from install_libs_nth [OF loop i]
    obtain before after where b: "install_libs env install_jar (take i libs) start = Inr before"
      and st: "install_lib_step env install_jar (libs ! i) before = Inr after"
      and a: "install_libs env install_jar (take (Suc i) libs) start = Inr after"
      by blast
    have "\<forall>name path. map_of [] name = Some path \<longrightarrow>
           (\<exists>fp. file_path env name = Inr fp \<and> path = path_join env (libraries_dir start) fp)"
      by simp
    from install_libs_manifest [OF b s(1) this]
    have db: "libraries_dir before = libraries_dir self"
      unfolding d by blast
    from install_lib_step_effect [OF st] b a
    show "\<exists>before after lib_name fp downloads artifact url n.
               install_libs env install_jar (take i libs) start = Inr before
             \<and> install_libs env install_jar (take (Suc i) libs) start = Inr after
             \<and> py_getitem (libs ! i) ''name'' = Inr (JStr lib_name)
             \<and> file_path env lib_name = Inr fp
             \<and> py_getitem (libs ! i) ''downloads'' = Inr downloads
             \<and> py_getitem downloads ''artifact'' = Inr artifact
             \<and> py_getitem artifact ''url'' = Inr url
             \<and> py_len url = Inr n
             \<and> (n \<noteq> 0 \<longrightarrow> fs after = fs before
                   \<and> (\<exists>e. from_meta env artifact (path_join env (libraries_dir self) fp) = Inr e
                        \<and> dl after =
                            (if fs before (path_join env (libraries_dir self) fp) = None
                                \<or> (\<exists>sz content. entry_size e = Some sz
                                      \<and> fs before (path_join env (libraries_dir self) fp) = Some content
                                      \<and> int (length content) \<noteq> sz)
                             then dl before @ [e] else dl before)))
             \<and> (n = 0 \<longrightarrow> dl after = dl before
                   \<and> (\<exists>content. install_jar (''maven/'' @ fp) = Some content
                        \<and> fs after = (fs before)(path_join env (libraries_dir self) fp \<mapsto> content)))"
      unfolding db by blast
  qed
  from l s loop f m keys paths each show ?thesis
    by (intro exI [of _ install_libraries] exI [of _ libs] exI [of _ start] exI [of _ final]
          exI [of _ m]) simp
qed

text \<open>
  The modern archive on an object with no file on disk: both libraries are in the
  manifest under their destinations, the one with an URL is queued, and the one without
  is written from \<^verbatim>\<open>maven/b/lib/2.jar\<close>.
\<close>

theorem fetch_modern_library_manifest_witness:
  "map_sum id (\<lambda>(version_meta', self'). (forge_install_libraries self', dl self', fs self' ''/libs/b/lib/2.jar''))
       (fetch_modern core_demo jar_modern profile_modern obj_modern)
     = Inr (Some [(''a:lib:1'', ''/libs/a/lib/1.jar''), (''b:lib:2'', ''/libs/b/lib/2.jar'')],
            [\<lparr> entry_url = JStr ''https://x/a.jar'', entry_dst = ''/libs/a/lib/1.jar'', entry_size = Some 5 \<rparr>],
            Some ''abc'')
   \<and> (\<exists>fp. file_path core_demo ''b:lib:2'' = Inr fp
          \<and> ''/libs/b/lib/2.jar'' = path_join core_demo (libraries_dir obj_modern) fp)"
proof -
  have "\<exists>m s. fetch_modern core_demo jar_modern profile_modern obj_modern = Inr (m, s)
          \<and> forge_install_libraries s = Some [(''a:lib:1'', ''/libs/a/lib/1.jar''), (''b:lib:2'', ''/libs/b/lib/2.jar'')]
          \<and> dl s = [\<lparr> entry_url = JStr ''https://x/a.jar'', entry_dst = ''/libs/a/lib/1.jar'', entry_size = Some 5 \<rparr>]
          \<and> fs s ''/libs/b/lib/2.jar'' = Some ''abc''"
    by (simp add: fetch_modern_def profile_modern_def bnd_def ext_def core_demo_def jar_modern_def
          version_modern_def install_lib_step_def lib_url_def lib_embedded_def artifact_url_def
          artifact_embedded_def core_plain_def obj_modern_def ForgeVersion_init_def base_obj_def
          zip_extract_file_def needs_download_def Let_def)
  then obtain m s where r: "fetch_modern core_demo jar_modern profile_modern obj_modern = Inr (m, s)"
    and lib: "forge_install_libraries s = Some [(''a:lib:1'', ''/libs/a/lib/1.jar''), (''b:lib:2'', ''/libs/b/lib/2.jar'')]"
    and rest: "dl s = [\<lparr> entry_url = JStr ''https://x/a.jar'', entry_dst = ''/libs/a/lib/1.jar'', entry_size = Some 5 \<rparr>]"
      "fs s ''/libs/b/lib/2.jar'' = Some ''abc''"
    by blast
  from fetch_modern_library_manifest [OF r]
  obtain m' where a: "forge_install_libraries s = Some m'"
    and paths: "\<forall>name path. map_of m' name = Some path \<longrightarrow>
        (\<exists>fp. file_path core_demo name = Inr fp \<and> path = path_join core_demo (libraries_dir obj_modern) fp)"
    by (elim exE conjE) (rule that)
  from a lib have m': "m' = [(''a:lib:1'', ''/libs/a/lib/1.jar''), (''b:lib:2'', ''/libs/b/lib/2.jar'')]"
    by simp
  have "map_of m' ''b:lib:2'' = Some ''/libs/b/lib/2.jar''"
    unfolding m' by simp
  with paths have "\<exists>fp. file_path core_demo ''b:lib:2'' = Inr fp
          \<and> ''/libs/b/lib/2.jar'' = path_join core_demo (libraries_dir obj_modern) fp"
    by blast
  with r lib rest show ?thesis by simp
qed

text \<open>
  Against C3 as it is worded: the first library of the modern profile has a non-empty
  URL, and with its file already on disk in the declared size the profile is parsed with
  success and nothing is registered for download.
\<close>

theorem fetch_modern_url_not_registered:
  "py_getitem profile_modern ''libraries'' = Inr (JArr [lib_url, lib_embedded])
   \<and> bnd (py_getitem lib_url ''downloads'') (\<lambda>downloads. py_getitem downloads ''artifact'') = Inr artifact_url
   \<and> bnd (py_getitem artifact_url ''url'') py_len = Inr 15
   \<and> map_sum id (\<lambda>(version_meta', self'). dl self')
        (fetch_modern core_demo jar_modern profile_modern obj_present) = Inr []"
proof -
  have reads: "py_getitem profile_modern ''libraries'' = Inr (JArr [lib_url, lib_embedded])
   \<and> bnd (py_getitem lib_url ''downloads'') (\<lambda>downloads. py_getitem downloads ''artifact'') = Inr artifact_url
   \<and> bnd (py_getitem artifact_url ''url'') py_len = Inr 15"
    by (simp add: profile_modern_def lib_url_def artifact_url_def bnd_def)
  have run: "map_sum id (\<lambda>(version_meta', self'). dl self')
        (fetch_modern core_demo jar_modern profile_modern obj_present) = Inr []"
    by (simp add: fetch_modern_def profile_modern_def bnd_def ext_def core_demo_def jar_modern_def
          version_modern_def install_lib_step_def lib_url_def lib_embedded_def artifact_url_def
          artifact_embedded_def core_plain_def obj_modern_def ForgeVersion_init_def base_obj_def
          zip_extract_file_def needs_download_def Let_def obj_present_def obj_installing_def)
  from reads run show ?thesis by blast
qed

section \<open>Properties of the library filter\<close>

lemma keep_downloads_objects:
  assumes "\<forall>lib \<in> set libs. \<exists>kvs. lib = JObj kvs"
  shows "keep_downloads libs =
           Inr (filter (\<lambda>lib. \<exists>kvs downloads. lib = JObj kvs
                           \<and> map_of kvs ''downloads'' = Some downloads \<and> py_truthy downloads) libs)"
  using assms
proof (induction libs)
  case Nil
  show ?case by simp
next
  case (Cons lib libs)
  then obtain kvs where k: "lib = JObj kvs" by auto
  from Cons have rest: "keep_downloads libs =
           Inr (filter (\<lambda>lib. \<exists>kvs downloads. lib = JObj kvs
                           \<and> map_of kvs ''downloads'' = Some downloads \<and> py_truthy downloads) libs)"
    by simp
  show ?case
    unfolding k by (cases "map_of kvs ''downloads''") (simp_all add: rest)
qed

text \<open>
  C4, as the code has it. When the install manifest is absent, \<^verbatim>\<open>prepare_libraries\<close> hands
  the object to the step of the base class as it is. When it is present and the metadata's
  \<^verbatim>\<open>libraries\<close> is a list of objects, the list is replaced, before that step, by exactly
  the entries whose \<^verbatim>\<open>downloads\<close> value is there and true as a condition (not \<^verbatim>\<open>null\<close>,
  \<^verbatim>\<open>false\<close>, 0, nor an empty string, list or object).
\<close>

theorem prepare_libraries_filter:
  "(forge_install_libraries self = None \<longrightarrow>
      prepare_libraries env self = ext (super_prepare_libraries env self))
   \<and> (forge_install_libraries self \<noteq> None
        \<and> version_meta self = JObj meta
        \<and> map_of meta ''libraries'' = Some (JArr libs)
        \<and> (\<forall>lib \<in> set libs. \<exists>kvs. lib = JObj kvs)
      \<longrightarrow> (\<exists>version_meta'.
             prepare_libraries env self
               = ext (super_prepare_libraries env (self\<lparr> version_meta := version_meta' \<rparr>))
           \<and> py_getitem version_meta' ''libraries'' =
               Inr (JArr (filter (\<lambda>lib. \<exists>kvs downloads. lib = JObj kvs
                                    \<and> map_of kvs ''downloads'' = Some downloads
                                    \<and> py_truthy downloads) libs))
           \<and> (\<forall>k. k \<noteq> ''libraries'' \<longrightarrow> py_getitem version_meta' k = py_getitem (version_meta self) k)))"
proof (intro conjI impI)
  assume "forge_install_libraries self = None"
  then show "prepare_libraries env self = ext (super_prepare_libraries env self)"
    by (simp add: prepare_libraries_def filter_version_libraries_def bnd_def)
next
  let ?kept = "filter (\<lambda>lib. \<exists>kvs downloads. lib = JObj kvs
                  \<and> map_of kvs ''downloads'' = Some downloads \<and> py_truthy downloads) libs"
  assume a: "forge_install_libraries self \<noteq> None
        \<and> version_meta self = JObj meta
        \<and> map_of meta ''libraries'' = Some (JArr libs)
        \<and> (\<forall>lib \<in> set libs. \<exists>kvs. lib = JObj kvs)"
  then have keep: "keep_downloads libs = Inr ?kept"
    by (intro keep_downloads_objects) simp
  let ?vm = "JObj (AList.update ''libraries'' (JArr ?kept) meta)"
  have 1: "prepare_libraries env self = ext (super_prepare_libraries env (self\<lparr> version_meta := ?vm \<rparr>))"
    using a keep by (simp add: prepare_libraries_def filter_version_libraries_def bnd_def)
  have 2: "py_getitem ?vm ''libraries'' = Inr (JArr ?kept)"
    by (simp add: update_conv')
  have 3: "\<forall>k. k \<noteq> ''libraries'' \<longrightarrow> py_getitem ?vm k = py_getitem (version_meta self) k"
    using a by (simp add: update_conv')
  from 1 2 3
  show "\<exists>version_meta'.
             prepare_libraries env self
               = ext (super_prepare_libraries env (self\<lparr> version_meta := version_meta' \<rparr>))
           \<and> py_getitem version_meta' ''libraries'' = Inr (JArr ?kept)
           \<and> (\<forall>k. k \<noteq> ''libraries'' \<longrightarrow> py_getitem version_meta' k = py_getitem (version_meta self) k)"
    by blast
qed

text \<open>
  Of a library with a descriptor and one without, the first is kept while an install is
  in progress; with no install in progress the list is not touched.
\<close>

theorem prepare_libraries_filter_witness:
  "bnd (prepare_libraries core_plain obj_mixed) (\<lambda>self. py_getitem (version_meta self) ''libraries'')
     = Inr (JArr [lib_url])
   \<and> prepare_libraries core_plain obj_idle = Inr obj_idle"
proof -
  note t = prepare_libraries_filter [of obj_mixed core_plain
      "[(''id'', JStr ''forge-1.20.1-47.2.0''),
        (''libraries'', JArr [lib_url, JObj [(''name'', JStr ''d:lib:4'')]])]"
      "[lib_url, JObj [(''name'', JStr ''d:lib:4'')]]"]
  have h: "forge_install_libraries obj_mixed \<noteq> None
        \<and> version_meta obj_mixed = JObj [(''id'', JStr ''forge-1.20.1-47.2.0''),
              (''libraries'', JArr [lib_url, JObj [(''name'', JStr ''d:lib:4'')]])]
        \<and> map_of [(''id'', JStr ''forge-1.20.1-47.2.0''),
              (''libraries'', JArr [lib_url, JObj [(''name'', JStr ''d:lib:4'')]])] ''libraries''
            = Some (JArr [lib_url, JObj [(''name'', JStr ''d:lib:4'')]])
        \<and> (\<forall>lib \<in> set [lib_url, JObj [(''name'', JStr ''d:lib:4'')]]. \<exists>kvs. lib = JObj kvs)"
    by (simp add: obj_mixed_def obj_installing_def lib_url_def)
  have kept: "filter (\<lambda>lib. \<exists>kvs downloads. lib = JObj kvs
                  \<and> map_of kvs ''downloads'' = Some downloads \<and> py_truthy downloads)
                [lib_url, JObj [(''name'', JStr ''d:lib:4'')]] = [lib_url]"
    by (simp add: lib_url_def)
  from t h obtain vm where
    p: "prepare_libraries core_plain obj_mixed
          = ext (super_prepare_libraries core_plain (obj_mixed\<lparr> version_meta := vm \<rparr>))"
    and g: "py_getitem vm ''libraries'' = Inr (JArr [lib_url])"
    unfolding kept by blast
  have a: "bnd (prepare_libraries core_plain obj_mixed) (\<lambda>self. py_getitem (version_meta self) ''libraries'')
     = Inr (JArr [lib_url])"
    unfolding p using g by (simp add: core_plain_def ext_def bnd_def)
  have "forge_install_libraries obj_idle = None"
    by (simp add: obj_idle_def)
  with prepare_libraries_filter [of obj_idle core_plain]
  have "prepare_libraries core_plain obj_idle = ext (super_prepare_libraries core_plain obj_idle)"
    by blast
  then have b: "prepare_libraries core_plain obj_idle = Inr obj_idle"
    by (simp add: core_plain_def ext_def)
  from a b show ?thesis by simp
qed

text \<open>
  Against C4 as it is worded: the first library of the metadata of the modern archive has
  a \<^verbatim>\<open>downloads\<close> key, bound to an empty descriptor, and the filter drops it with the
  library that has no such key.
\<close>

theorem prepare_libraries_drops_empty_descriptor:
  "py_getitem (version_meta obj_installed) ''libraries''
     = Inr (JArr [JObj [(''name'', JStr ''c:lib:3''), (''downloads'', JObj [])],
                  JObj [(''name'', JStr ''d:lib:4'')]])
   \<and> py_contains ''downloads'' (JObj [(''name'', JStr ''c:lib:3''), (''downloads'', JObj [])]) = Inr True
   \<and> forge_install_libraries obj_installed = Some []
   \<and> bnd (prepare_libraries core_plain obj_installed)
        (\<lambda>self. py_getitem (version_meta self) ''libraries'') = Inr (JArr [])"
  by (simp add: obj_installed_def obj_installing_def version_modern_def prepare_libraries_def
        filter_version_libraries_def bnd_def ext_def core_plain_def)

section \<open>The attributes of post-processing and the parser\<close>

text \<open>
  Neither the constructor nor the parser touches \<open>install_lib_paths\<close>: on an object
  that came without it, \<^verbatim>\<open>prepare_post\<close> raises \<^verbatim>\<open>AttributeError\<close> after every parse of
  the object's own identifier, whatever the archive declares.
\<close>

lemma install_lib_step_keeps:
  assumes "install_lib_step env install_jar install_lib self = Inr self'"
  shows "install_lib_paths self' = install_lib_paths self"
proof -
  from install_lib_step_reads [OF assms]
  obtain lib_name fp downloads artifact url n libs where
    r: "py_getitem install_lib ''name'' = Inr (JStr lib_name)"
      "file_path env lib_name = Inr fp"
      "py_getitem install_lib ''downloads'' = Inr downloads"
      "py_getitem downloads ''artifact'' = Inr artifact"
      "py_getitem artifact ''url'' = Inr url"
      "py_len url = Inr n"
      "forge_install_libraries self = Some libs"
    by blast
  from assms show ?thesis
    unfolding install_lib_step_eval [OF r refl refl]
    by (auto split: if_splits sum.splits option.splits)
qed

lemma install_libs_keeps:
  "install_libs env install_jar libs self = Inr self' \<Longrightarrow>
     install_lib_paths self' = install_lib_paths self"
  by (induction libs arbitrary: self) (auto split: sum.splits dest: install_lib_step_keeps)

lemma fetch_modern_keeps:
  assumes "fetch_modern env install_jar install_profile self = Inr (version_meta', self')"
  shows "install_lib_paths self' = install_lib_paths self"
  using assms unfolding fetch_modern_def Let_def
  by (auto elim!: bnd_Inr dest!: install_libs_keeps)

lemma fetch_legacy_keeps:
  assumes "fetch_legacy env install_jar install_profile self = Inr (version_meta', self')"
  shows "install_lib_paths self' = install_lib_paths self"
  using assms unfolding fetch_legacy_def Let_def
  by (auto elim!: bnd_Inr split: if_splits)

lemma parse_install_jar_keeps:
  assumes "parse_install_jar env version_id install_jar self = Inr (version_meta', self')"
  shows "install_lib_paths self' = install_lib_paths self"
  using assms unfolding parse_install_jar_def
  by (auto elim!: bnd_Inr split: if_splits dest: fetch_modern_keeps fetch_legacy_keeps)

lemma prepare_post_after_any_parse:
  assumes "install_lib_paths base = Absent"
    and "self = ForgeVersion_init base fv prefix"
    and "fetch_version_meta env (self_id self) version_dir version_meta_file self
           = Inr (version_meta', self')"
    and "super_prepare_post env self' = Inr self'"
  shows "prepare_post env self' = Inl (AttributeError ''install_lib_paths'')"
proof -
  from assms(3) obtain install_jar where
    "parse_install_jar env (self_id self) install_jar self = Inr (version_meta', self')"
    by (auto simp: fetch_version_meta_def elim!: bnd_Inr split: option.splits)
  then have "install_lib_paths self' = install_lib_paths self"
    by (rule parse_install_jar_keeps)
  also have "\<dots> = Absent"
    using assms(1,2) by (simp add: ForgeVersion_init_def)
  finally show ?thesis
    using assms(4) by (intro prepare_post_absent)
qed

end
